theory Spec2Isabelle
  imports Main "HOL-Library.Word"
begin

section \<open>JavaScript strings and values\<close>

text \<open>
  A JavaScript string is a sequence of UTF-16 code units; \<open>length\<close>, \<open>substring\<close> and
  the regular expressions of the sources all count code units. String literals of the
  sources are written \<open>js ''...''\<close>.
\<close>

type_synonym jschar = "16 word"
type_synonym jsstring = "jschar list"

definition js :: "string \<Rightarrow> jsstring" where
  "js s = map of_char s"

text \<open>
  An optional value (\<open>undefined\<close>, \<open>null\<close> or an absent property) is \<open>None\<close>.
  A string is truthy when it is not empty; \<open>a || b\<close> on strings is \<open>orElse\<close>.
\<close>

definition truthy :: "jsstring option \<Rightarrow> bool" where
  "truthy v = (case v of None \<Rightarrow> False | Some s \<Rightarrow> s \<noteq> [])"

definition orElse :: "jsstring option \<Rightarrow> jsstring \<Rightarrow> jsstring" where
  "orElse v d = (case v of None \<Rightarrow> d | Some s \<Rightarrow> if s = [] then d else s)"

text \<open>Decimal rendering of numbers, as template strings and \<open>toString()\<close> produce it.\<close>

fun showNat :: "nat \<Rightarrow> jsstring" where
  "showNat n = (if n < 10 then [of_nat (48 + n)] else showNat (n div 10) @ [of_nat (48 + n mod 10)])"

declare showNat.simps [simp del]

definition showInt :: "int \<Rightarrow> jsstring" where
  "showInt i = (if i < 0 then js ''-'' @ showNat (nat (- i)) else showNat (nat i))"

text \<open>An exit code in a template string: \<open>null\<close> is rendered as the word.\<close>

definition showCode :: "int option \<Rightarrow> jsstring" where
  "showCode code = (case code of None \<Rightarrow> js ''null'' | Some c \<Rightarrow> showInt c)"

text \<open>
  Thrown values. \<open>Error m\<close> is \<open>new Error(m)\<close> of the sources; \<open>TypeError\<close> and
  \<open>URIError\<close> are raised by the language itself; \<open>SystemError code m\<close> is an error
  reported by a collaborator (file system, subprocess, remote API) with its \<open>code\<close>
  property.
\<close>

datatype error =
    Error jsstring
  | TypeError jsstring
  | URIError
  | SystemError jsstring jsstring

fun errMessage :: "error \<Rightarrow> jsstring" where
  "errMessage (Error m) = m"
| "errMessage (TypeError m) = m"
| "errMessage URIError = js ''URI malformed''"
| "errMessage (SystemError c m) = m"

fun errCode :: "error \<Rightarrow> jsstring option" where
  "errCode (SystemError c m) = Some c"
| "errCode e = None"

section \<open>The environment\<close>

text \<open>
  Every external collaborator (file system, shell, capture subprocess, remote inference
  API, clock) is an input: the \<open>world\<close> record gives the outcome of each call the
  sources make, and every function returns the list of effects it performed, in order.
  An awaited operation that never settles is the value \<open>None\<close>.

  What the model leaves out: the fixed delays (\<open>setTimeout\<close>), which change no value;
  console lines that carry no error, warning or report (an entry of \<open>message\<close> stands
  for the line or lines of one \<open>console\<close> call site, without colour codes); the text
  of the shell commands and of the AppleScript programs, named by \<open>command\<close> and
  \<open>content\<close>; the interrupt handler; and the sessions a registered schedule starts
  later. The outcome of a call depends on its arguments only, and the clock is read as
  one value. Configuration fields hold strings when present.
\<close>

datatype command =
    OpenUrl jsstring             \<comment> \<open>\<open>open "<url>"\<close>\<close>
  | RunScriptFile jsstring       \<comment> \<open>\<open>osascript "<path>"\<close>\<close>
  | WindowCheckScript            \<comment> \<open>\<open>osascript -e\<close> with the meeting-window query\<close>
  | QuitScript                   \<comment> \<open>\<open>osascript -e\<close> with \<open>tell application "zoom.us" quit\<close>\<close>
  | Killall                      \<comment> \<open>\<open>killall "zoom.us"\<close>\<close>

datatype content =
    JoinAppleScript              \<comment> \<open>the fixed UI-automation script of joinZoomMeeting\<close>
  | Body jsstring

record remoteFile =
  rf_uri :: jsstring
  rf_name :: jsstring
  rf_mimeType :: jsstring

datatype request =
    TranscriptRequest remoteFile \<comment> \<open>file data plus the fixed transcript instruction\<close>
  | PromptRequest jsstring

datatype message =
    MsgFfmpegNotFound            \<comment> \<open>"FFmpeg not found. Please install FFmpeg:" / "brew install ffmpeg"\<close>
  | MsgFfmpegError jsstring
  | MsgStartError jsstring
  | MsgNoActiveRecording
  | MsgRecordingStopped "jsstring option"
  | MsgFileSize nat
  | MsgRecordingNotFound
  | MsgFfmpegExit jsstring
  | MsgFileVerificationFailed jsstring
  | MsgUnsupportedProvider "jsstring option"
  | MsgConfigNotFound
  | MsgConfigError jsstring
  | MsgOpenFailed jsstring
  | MsgAutomationIssue jsstring
  | MsgQuitFallback
  | MsgQuitFailed jsstring
  | MsgExtractError jsstring
  | MsgTranscriptionError jsstring
  | MsgSummaryError jsstring
  | MsgVerificationFailed jsstring
  | MsgTranscriptionFailed jsstring
  | MsgSessionError jsstring
  | MsgFatal jsstring
  | ReportRecording jsstring
  | ReportTranscript jsstring
  | ReportSummary jsstring

datatype stage =
    StageJoin | StageStartRecording | StageMonitor | StageStopRecording | StageQuit
  | StageVerify | StageTranscribe | StageSummary

datatype event =
    FsMkdir jsstring
  | FsWriteFile jsstring content
  | FsUnlink jsstring
  | FsAccess "jsstring option"
  | FsStat "jsstring option"
  | Exec command
  | Spawn jsstring "jsstring list"
  | StdinWrite jsstring
  | StdinEnd
  | FfmpegExtract "jsstring option" jsstring
  | UploadFile jsstring
  | GetFile jsstring
  | GenerateContent jsstring request
  | Console message
  | Invoke stage
  | CronSchedule "jsstring option" "jsstring option"
  | ProcessExit int

text \<open>The stages a session invoked, in order, read off its effects.\<close>

fun invoked :: "event list \<Rightarrow> stage list" where
  "invoked [] = []"
| "invoked (Invoke s # evs) = s # invoked evs"
| "invoked (e # evs) = invoked evs"

text \<open>The configuration document, with the fields of the README's example.\<close>

record zoomCfg =
  zoom_meetingLink :: "jsstring option"
  zoom_password :: "jsstring option"
  zoom_displayName :: "jsstring option"

record cloudCfg =
  cloud_provider :: "jsstring option"
  cloud_folderName :: "jsstring option"

record recordingCfg =
  rec_outputDir :: "jsstring option"
  rec_quality :: "jsstring option"

record aiCfg =
  ai_transcriptionModel :: "jsstring option"
  ai_summaryModel :: "jsstring option"

record scheduleCfg =
  sched_enabled :: bool
  sched_cronExpression :: "jsstring option"
  sched_timezone :: "jsstring option"

record config =
  cfg_zoom :: "zoomCfg option"
  cfg_cloudStorage :: "cloudCfg option"
  cfg_recording :: "recordingCfg option"
  cfg_ai :: "aiCfg option"
  cfg_schedule :: "scheduleCfg option"

datatype configSource =
    ReadFailed error             \<comment> \<open>\<open>fs.readFile\<close> rejected (\<open>ENOENT\<close> when the file is missing)\<close>
  | ParseFailed error            \<comment> \<open>\<open>JSON.parse\<close> threw\<close>
  | Document config

record world =
  w_pathJoin :: "jsstring \<Rightarrow> jsstring \<Rightarrow> jsstring"      \<comment> \<open>\<open>path.join\<close>\<close>
  w_isoNow :: jsstring                                    \<comment> \<open>\<open>new Date().toISOString()\<close>\<close>
  w_dateNow :: nat                                        \<comment> \<open>\<open>Date.now()\<close>\<close>
  w_tmpdir :: jsstring                                    \<comment> \<open>\<open>os.tmpdir()\<close>\<close>
  w_apiKey :: "jsstring option"                           \<comment> \<open>\<open>process.env.GEMINI_API_KEY\<close>\<close>
  w_argvNow :: bool                                       \<comment> \<open>\<open>process.argv.includes('--now')\<close>\<close>
  w_configFile :: configSource
  w_mkdir :: "jsstring \<Rightarrow> error option"
  w_writeFile :: "jsstring \<Rightarrow> content \<Rightarrow> error option"
  w_unlink :: "jsstring \<Rightarrow> error option"
  w_access :: "jsstring \<Rightarrow> error option"
  w_stat :: "jsstring \<Rightarrow> error + nat"
  w_exec :: "command \<Rightarrow> error + jsstring"              \<comment> \<open>failure, or the command's stdout\<close>
  w_windowPolls :: "(error + jsstring) list"              \<comment> \<open>successive meeting-window queries\<close>
  w_spawnError :: "error option"                          \<comment> \<open>\<open>'error'\<close> event of the capture subprocess\<close>
  w_close :: "int option option"                          \<comment> \<open>\<open>'close'\<close> event: never, or the exit code (null when signalled)\<close>
  w_extractAudio :: "jsstring option \<Rightarrow> jsstring \<Rightarrow> error option"
  w_uploadFile :: "jsstring \<Rightarrow> error + remoteFile"
  w_getFile :: "(error + jsstring) list"                  \<comment> \<open>successive processing states of the uploaded file\<close>
  w_generate :: "jsstring \<Rightarrow> request \<Rightarrow> error + jsstring"
  w_cronSchedule :: "jsstring option \<Rightarrow> jsstring option \<Rightarrow> error option"

text \<open>
  \<open>fs.stat\<close> and \<open>fs.access\<close> reject a null path before reaching the file system.
\<close>

definition fsStat :: "world \<Rightarrow> jsstring option \<Rightarrow> error + nat" where
  "fsStat w p = (case p of
      None \<Rightarrow> Inl (TypeError (js ''The path argument must be of type string''))
    | Some q \<Rightarrow> w_stat w q)"

definition fsAccess :: "world \<Rightarrow> jsstring option \<Rightarrow> error option" where
  "fsAccess w p = (case p of
      None \<Rightarrow> Some (TypeError (js ''The path argument must be of type string''))
    | Some q \<Rightarrow> w_access w q)"

section \<open>Screen recorder (screenRecorder.js)\<close>

text \<open>The module state: \<open>let ffmpegProcess = null; let recordingPath = null;\<close>\<close>

datatype proc = Proc "jsstring list"

record recorder =
  ffmpegProcess :: "proc option"
  recordingPath :: "jsstring option"

definition recorderInit :: recorder where
  "recorderInit = \<lparr> ffmpegProcess = None, recordingPath = None \<rparr>"

record settings =
  resolution :: jsstring
  bitrate :: jsstring
  framerate :: nat

definition qualitySettings :: "(jsstring \<times> settings) list" where
  "qualitySettings =
    [ (js ''high'',   \<lparr> resolution = js ''1920x1080'', bitrate = js ''5000k'', framerate = 30 \<rparr>),
      (js ''medium'', \<lparr> resolution = js ''1280x720'',  bitrate = js ''2500k'', framerate = 30 \<rparr>),
      (js ''low'',    \<lparr> resolution = js ''854x480'',   bitrate = js ''1000k'', framerate = 24 \<rparr>) ]"

text \<open>
  \<open>qualitySettings\<close> is an object literal, so \<open>qualitySettings[quality]\<close> looks the key
  up among the object's own properties and then along the prototype chain: the
  properties of \<open>Object.prototype\<close> are found under their names, and their values
  (functions, and the prototype object itself for \<open>__proto__\<close>) are truthy objects that
  have neither a \<open>resolution\<close> nor a \<open>framerate\<close> property.
\<close>

definition objectPrototypeKeys :: "jsstring list" where
  "objectPrototypeKeys =
    [ js ''constructor'', js ''__defineGetter__'', js ''__defineSetter__'', js ''hasOwnProperty'',
      js ''__lookupGetter__'', js ''__lookupSetter__'', js ''isPrototypeOf'',
      js ''propertyIsEnumerable'', js ''toString'', js ''valueOf'', js ''__proto__'',
      js ''toLocaleString'' ]"

datatype property = Own settings | Inherited

definition getQuality :: "jsstring \<Rightarrow> property option" where
  "getQuality quality = (case map_of qualitySettings quality of
      Some s \<Rightarrow> Some (Own s)
    | None \<Rightarrow> if quality \<in> set objectPrototypeKeys then Some Inherited else None)"

text \<open>\<open>const settings = qualitySettings[quality] || qualitySettings.high;\<close>\<close>

definition selectSettings :: "jsstring \<Rightarrow> property" where
  "selectSettings quality = (case getQuality quality of
      Some v \<Rightarrow> v
    | None \<Rightarrow> (case map_of qualitySettings (js ''high'') of Some s \<Rightarrow> Own s | None \<Rightarrow> Inherited))"

definition ffmpegArgs :: "settings \<Rightarrow> jsstring \<Rightarrow> jsstring list" where
  "ffmpegArgs s path =
    [ js ''-f'', js ''avfoundation'',
      js ''-framerate'', showNat (framerate s),
      js ''-video_size'', resolution s,
      js ''-i'', js ''1:0'',
      js ''-c:v'', js ''libx264'',
      js ''-preset'', js ''fast'',
      js ''-crf'', js ''23'',
      js ''-pix_fmt'', js ''yuv420p'',
      js ''-c:a'', js ''aac'',
      js ''-b:a'', js ''128k'',
      js ''-movflags'', js ''+faststart'',
      path ]"

text \<open>\<open>new Date().toISOString().replace(/[:.]/g, '-')\<close>\<close>

definition timestampOf :: "jsstring \<Rightarrow> jsstring" where
  "timestampOf stamp = map (\<lambda>c. if c = 0x3A \<or> c = 0x2E then 0x2D else c) stamp"

definition recordingFileOf :: "world \<Rightarrow> jsstring \<Rightarrow> jsstring" where
  "recordingFileOf w outputDir =
     w_pathJoin w outputDir (js ''zoom-recording-'' @ timestampOf (w_isoNow w) @ js ''.mp4'')"

text \<open>The \<open>'error'\<close> handler of the subprocess only writes to the console.\<close>

definition spawnErrorLog :: "world \<Rightarrow> event list" where
  "spawnErrorLog w = (case w_spawnError w of
      None \<Rightarrow> []
    | Some e \<Rightarrow> if errCode e = Some (js ''ENOENT'')
                then [Console MsgFfmpegNotFound]
                else [Console (MsgFfmpegError (errMessage e))])"

text \<open>
  \<open>startScreenRecording(outputDir, quality = 'high')\<close>. Building the argument array
  evaluates \<open>settings.framerate.toString()\<close>, which throws a \<open>TypeError\<close> when
  \<open>settings.framerate\<close> is \<open>undefined\<close>; \<open>recordingPath\<close> has been assigned by then.
  \<open>spawn\<close> reports a missing binary through the \<open>'error'\<close> event, not by throwing.
\<close>

definition startScreenRecording ::
  "world \<Rightarrow> recorder \<Rightarrow> jsstring \<Rightarrow> jsstring option \<Rightarrow> (error + jsstring) \<times> recorder \<times> event list" where
  "startScreenRecording w st outputDir qualityArg =
    (let quality = (case qualityArg of None \<Rightarrow> js ''high'' | Some q \<Rightarrow> q) in
     case w_mkdir w outputDir of
       Some e \<Rightarrow> (Inl e, st, [FsMkdir outputDir, Console (MsgStartError (errMessage e))])
     | None \<Rightarrow>
        (let path = recordingFileOf w outputDir;
             st1 = st\<lparr> recordingPath := Some path \<rparr>
         in case selectSettings quality of
              Inherited \<Rightarrow>
                (let e = TypeError (js ''Cannot read properties of undefined (reading 'toString')'')
                 in (Inl e, st1, [FsMkdir outputDir, Console (MsgStartError (errMessage e))]))
            | Own s \<Rightarrow>
                (let args = ffmpegArgs s path;
                     st2 = st1\<lparr> ffmpegProcess := Some (Proc args) \<rparr>
                 in (Inr path, st2,
                     [FsMkdir outputDir, Spawn (js ''ffmpeg'') args] @ spawnErrorLog w))))"

text \<open>
  \<open>stopScreenRecording()\<close>: the promise settles in the \<open>'close'\<close> handler, which clears
  \<open>ffmpegProcess\<close> as its last statement.
\<close>

definition stopScreenRecording ::
  "world \<Rightarrow> recorder \<Rightarrow> ((error + jsstring option) \<times> recorder \<times> event list) option" where
  "stopScreenRecording w st =
    (case ffmpegProcess st of
       None \<Rightarrow> Some (Inr None, st, [Console MsgNoActiveRecording])
     | Some p \<Rightarrow>
        (case w_close w of
           None \<Rightarrow> None
         | Some code \<Rightarrow>
            (let st' = st\<lparr> ffmpegProcess := None \<rparr>;
                 quit = [StdinWrite (js ''q''), StdinEnd]
             in if code = Some 0 \<or> code = None then
                  (case fsStat w (recordingPath st) of
                     Inr sz \<Rightarrow>
                       Some (Inr (recordingPath st), st',
                             quit @ [Console (MsgRecordingStopped (recordingPath st)),
                                     FsStat (recordingPath st), Console (MsgFileSize sz)])
                   | Inl e \<Rightarrow>
                       Some (Inl e, st',
                             quit @ [Console (MsgRecordingStopped (recordingPath st)),
                                     FsStat (recordingPath st), Console MsgRecordingNotFound]))
                else
                  (let m = js ''FFmpeg exited with code '' @ showCode code
                   in Some (Inl (Error m), st', quit @ [Console (MsgFfmpegExit m)])))))"

definition getRecordingPath :: "recorder \<Rightarrow> jsstring option" where
  "getRecordingPath st = recordingPath st"

section \<open>Summariser (summary.js)\<close>

text \<open>
  The transcript argument is a string, or an object whose \<open>transcript\<close> or \<open>text\<close>
  property holds the text; the third component is \<open>JSON.stringify\<close> of the object.
\<close>

datatype transcriptArg =
    TranscriptString jsstring
  | TranscriptObject "jsstring option" "jsstring option" jsstring

definition transcriptTextOf :: "transcriptArg \<Rightarrow> jsstring" where
  "transcriptTextOf t = (case t of
      TranscriptString s \<Rightarrow> s
    | TranscriptObject tr tx json \<Rightarrow> orElse tr (orElse tx json))"

definition newline :: jschar where
  "newline = 0x0A"

definition joinLines :: "jsstring list \<Rightarrow> jsstring" where
  "joinLines ls = concat (map (\<lambda>l. l @ [newline]) ls)"

definition summaryPreamble :: jsstring where
  "summaryPreamble = joinLines
    [ js ''Please analyze the following meeting transcript and provide a comprehensive summary. Structure your response as follows:'',
      [],
      js ''## Meeting Summary'',
      [],
      js ''### Key Points'',
      js ''[List the main topics and key points discussed]'',
      [],
      js ''### Decisions Made'',
      js ''[List any decisions or conclusions reached]'',
      [],
      js ''### Action Items'',
      js ''[List any action items, tasks, or follow-ups mentioned, including who is responsible if mentioned]'',
      [],
      js ''### Important Details'',
      js ''[Any other important information, dates, deadlines, or context]'',
      [],
      js ''### Participants Mentioned'',
      js ''[List any participants or stakeholders mentioned]'',
      [],
      js ''---'',
      [],
      js ''Transcript:'' ]"

definition truncationMarker :: jsstring where
  "truncationMarker = [newline, newline] @ js ''[Transcript truncated for length]''"

text \<open>
  \<open>${transcriptText.substring(0, 30000)}${transcriptText.length > 30000 ? marker : ''}\<close>
\<close>

definition summaryPrompt :: "jsstring \<Rightarrow> jsstring" where
  "summaryPrompt transcriptText =
     summaryPreamble @ take 30000 transcriptText
       @ (if length transcriptText > 30000 then truncationMarker else [])"

record summaryResult =
  sr_summary :: jsstring
  sr_filePath :: jsstring

definition generateSummary ::
  "world \<Rightarrow> transcriptArg \<Rightarrow> jsstring \<Rightarrow> jsstring option \<Rightarrow> (error + summaryResult) \<times> event list" where
  "generateSummary w transcript outputDir modelArg =
    (let modelName = (case modelArg of None \<Rightarrow> js ''gemini-1.5-flash-8b'' | Some m \<Rightarrow> m) in
     if \<not> truthy (w_apiKey w) then
       (let e = Error (js ''GEMINI_API_KEY not found in environment variables'')
        in (Inl e, [Console (MsgSummaryError (errMessage e))]))
     else
       (let prompt = summaryPrompt (transcriptTextOf transcript);
            call = GenerateContent modelName (PromptRequest prompt)
        in case w_generate w modelName (PromptRequest prompt) of
             Inl e \<Rightarrow> (Inl e, [call, Console (MsgSummaryError (errMessage e))])
           | Inr summary \<Rightarrow>
              (let summaryPath = w_pathJoin w outputDir
                                   (js ''summary-'' @ showNat (w_dateNow w) @ js ''.md'')
               in case w_writeFile w summaryPath (Body summary) of
                    Some e \<Rightarrow> (Inl e, [call, FsWriteFile summaryPath (Body summary),
                                        Console (MsgSummaryError (errMessage e))])
                  | None \<Rightarrow> (Inr \<lparr> sr_summary = summary, sr_filePath = summaryPath \<rparr>,
                              [call, FsWriteFile summaryPath (Body summary)]))))"

section \<open>Storage verifier (cloudUpload.js)\<close>

record uploadResult =
  webUrl :: jsstring
  shareLink :: jsstring

definition uploadToCloud ::
  "world \<Rightarrow> jsstring option \<Rightarrow> jsstring option \<Rightarrow> jsstring option \<Rightarrow> (error + uploadResult) \<times> event list" where
  "uploadToCloud w filePath provider folderName =
    (case fsAccess w filePath of
       Some e \<Rightarrow> (Inl e, [FsAccess filePath, Console (MsgFileVerificationFailed (errMessage e))])
     | None \<Rightarrow>
        (let url = js ''file://'' @ (case filePath of None \<Rightarrow> js ''null'' | Some p \<Rightarrow> p) in
         if provider = Some (js ''local'') then
           (Inr \<lparr> webUrl = url, shareLink = url \<rparr>, [FsAccess filePath])
         else
           (Inr \<lparr> webUrl = url, shareLink = url \<rparr>,
            [FsAccess filePath, Console (MsgUnsupportedProvider provider)])))"

section \<open>Configuration loader (configLoader.js)\<close>

definition knownProviders :: "jsstring list" where
  "knownProviders = [js ''google-drive'', js ''onedrive'', js ''local'']"

text \<open>The checks of \<open>loadConfig\<close>, in the order of the source; \<open>None\<close> when all pass.\<close>

definition validateConfig :: "config \<Rightarrow> error option" where
  "validateConfig c =
    (if (case cfg_zoom c of
           None \<Rightarrow> True
         | Some z \<Rightarrow> \<not> truthy (zoom_meetingLink z) \<or> \<not> truthy (zoom_displayName z))
     then Some (Error (js ''Missing required zoom configuration (meetingLink, displayName)''))
     else if (case cfg_cloudStorage c of
                None \<Rightarrow> True
              | Some s \<Rightarrow> \<not> truthy (cloud_provider s))
     then Some (Error (js ''Missing cloudStorage.provider configuration''))
     else if (case cfg_cloudStorage c of
                None \<Rightarrow> True
              | Some s \<Rightarrow> (case cloud_provider s of
                             None \<Rightarrow> True
                           | Some p \<Rightarrow> p \<notin> set knownProviders))
     then Some (Error (js ''cloudStorage.provider must be either \"google-drive\", \"onedrive\", or \"local\"''))
     else None)"

definition applyDefaults :: "config \<Rightarrow> config" where
  "applyDefaults c =
    (let r = (case cfg_recording c of
                None \<Rightarrow> \<lparr> rec_outputDir = None, rec_quality = None \<rparr>
              | Some x \<Rightarrow> x);
         a = (case cfg_ai c of
                None \<Rightarrow> \<lparr> ai_transcriptionModel = None, ai_summaryModel = None \<rparr>
              | Some x \<Rightarrow> x)
     in c\<lparr> cfg_recording :=
              Some \<lparr> rec_outputDir = Some (orElse (rec_outputDir r) (js ''./recordings'')),
                     rec_quality = Some (orElse (rec_quality r) (js ''high'')) \<rparr>,
            cfg_ai :=
              Some \<lparr> ai_transcriptionModel = Some (orElse (ai_transcriptionModel a) (js ''whisper-1'')),
                     ai_summaryModel = Some (orElse (ai_summaryModel a) (js ''gpt-4'')) \<rparr> \<rparr>)"

definition configErrorLog :: "error \<Rightarrow> event list" where
  "configErrorLog e =
    (if errCode e = Some (js ''ENOENT'') then [Console MsgConfigNotFound]
     else [Console (MsgConfigError (errMessage e))])"

definition loadConfig :: "world \<Rightarrow> (error + config) \<times> event list" where
  "loadConfig w = (case w_configFile w of
      ReadFailed e \<Rightarrow> (Inl e, configErrorLog e)
    | ParseFailed e \<Rightarrow> (Inl e, configErrorLog e)
    | Document c \<Rightarrow>
       (case validateConfig c of
          Some e \<Rightarrow> (Inl e, configErrorLog e)
        | None \<Rightarrow> (Inr (applyDefaults c), [])))"

section \<open>Meeting joiner (zoomJoiner.js)\<close>

subsection \<open>Regular expressions\<close>

text \<open>
  \<open>String.prototype.match\<close> with a regular expression without the \<open>g\<close> flag tries
  the pattern at every start index from the left and returns the first match; \<open>search\<close>
  does this for a matcher anchored at the start of its argument. The three patterns of
  the source have a greedy quantifier as their last element, so the anchored match, when
  there is one, takes the longest run the quantifier allows. \<open>\d\<close> is \<open>[0-9]\<close>.
\<close>

fun search :: "(jsstring \<Rightarrow> 'a option) \<Rightarrow> jsstring \<Rightarrow> 'a option" where
  "search m [] = m []"
| "search m (c # cs) = (case m (c # cs) of Some r \<Rightarrow> Some r | None \<Rightarrow> search m cs)"

fun stripPrefix :: "jsstring \<Rightarrow> jsstring \<Rightarrow> jsstring option" where
  "stripPrefix [] s = Some s"
| "stripPrefix (p # ps) [] = None"
| "stripPrefix (p # ps) (c # cs) = (if p = c then stripPrefix ps cs else None)"

definition isDigit :: "jschar \<Rightarrow> bool" where
  "isDigit c = (0x30 \<le> c \<and> c \<le> 0x39)"

text \<open>\<open>/\/j\/(\d+)/\<close>, capture group 1.\<close>

definition idAt :: "jsstring \<Rightarrow> jsstring option" where
  "idAt s = (case stripPrefix (js ''/j/'') s of
      None \<Rightarrow> None
    | Some r \<Rightarrow> (let ds = takeWhile isDigit r in if ds = [] then None else Some ds))"

text \<open>\<open>/(\d{9,11})/\<close>, capture group 1.\<close>

definition numberAt :: "jsstring \<Rightarrow> jsstring option" where
  "numberAt s = (let ds = take 11 (takeWhile isDigit s) in if 9 \<le> length ds then Some ds else None)"

text \<open>\<open>/[?&]pwd=([^&]+)/\<close>, capture group 1.\<close>

definition ampersand :: jschar where
  "ampersand = 0x26"

definition questionMark :: jschar where
  "questionMark = 0x3F"

definition pwdAt :: "jsstring \<Rightarrow> jsstring option" where
  "pwdAt s = (case s of
      [] \<Rightarrow> None
    | c # r \<Rightarrow>
       if c = questionMark \<or> c = ampersand then
         (case stripPrefix (js ''pwd='') r of
            None \<Rightarrow> None
          | Some v \<Rightarrow> (let p = takeWhile (\<lambda>x. x \<noteq> ampersand) v in if p = [] then None else Some p))
       else None)"

subsection \<open>encodeURIComponent\<close>

text \<open>
  The \<open>Encode\<close> operation of ECMAScript with the unreserved set of
  \<open>encodeURIComponent\<close>: an unreserved code unit is copied; any other code point is
  written as the \<open>%XX\<close> escapes of its UTF-8 octets; an unpaired surrogate throws
  \<open>URIError\<close>.
\<close>

definition uriUnreserved :: "jschar \<Rightarrow> bool" where
  "uriUnreserved c =
     (c \<in> set (js ''ABCDEFGHIJKLMNOPQRSTUVWXYZabcdefghijklmnopqrstuvwxyz0123456789-_.!~*'()''))"

definition isLeadSurrogate :: "jschar \<Rightarrow> bool" where
  "isLeadSurrogate c = (0xD800 \<le> c \<and> c \<le> 0xDBFF)"

definition isTrailSurrogate :: "jschar \<Rightarrow> bool" where
  "isTrailSurrogate c = (0xDC00 \<le> c \<and> c \<le> 0xDFFF)"

definition pairCodePoint :: "jschar \<Rightarrow> jschar \<Rightarrow> nat" where
  "pairCodePoint lead trail = (unat lead - 0xD800) * 0x400 + (unat trail - 0xDC00) + 0x10000"

definition utf8 :: "nat \<Rightarrow> nat list" where
  "utf8 cp =
    (if cp < 0x80 then [cp]
     else if cp < 0x800 then [0xC0 + cp div 64, 0x80 + cp mod 64]
     else if cp < 0x10000 then [0xE0 + cp div 4096, 0x80 + cp div 64 mod 64, 0x80 + cp mod 64]
     else [0xF0 + cp div 262144, 0x80 + cp div 4096 mod 64, 0x80 + cp div 64 mod 64, 0x80 + cp mod 64])"

definition hexDigit :: "nat \<Rightarrow> jschar" where
  "hexDigit n = js ''0123456789ABCDEF'' ! (n mod 16)"

definition percent :: "nat \<Rightarrow> jsstring" where
  "percent octet = [0x25, hexDigit (octet div 16), hexDigit octet]"

definition escapeCodePoint :: "nat \<Rightarrow> jsstring" where
  "escapeCodePoint cp = concat (map percent (utf8 cp))"

fun encodeURIComponent :: "jsstring \<Rightarrow> error + jsstring" where
  "encodeURIComponent [] = Inr []"
| "encodeURIComponent [c] =
     (if uriUnreserved c then Inr [c]
      else if isLeadSurrogate c \<or> isTrailSurrogate c then Inl URIError
      else Inr (escapeCodePoint (unat c)))"
| "encodeURIComponent (c # d # ds) =
     (if uriUnreserved c then
        (case encodeURIComponent (d # ds) of Inl e \<Rightarrow> Inl e | Inr r \<Rightarrow> Inr (c # r))
      else if isLeadSurrogate c then
        (if isTrailSurrogate d then
           (case encodeURIComponent ds of
              Inl e \<Rightarrow> Inl e
            | Inr r \<Rightarrow> Inr (escapeCodePoint (pairCodePoint c d) @ r))
         else Inl URIError)
      else if isTrailSurrogate c then Inl URIError
      else
        (case encodeURIComponent (d # ds) of
           Inl e \<Rightarrow> Inl e
         | Inr r \<Rightarrow> Inr (escapeCodePoint (unat c) @ r)))"

subsection \<open>joinZoomMeeting\<close>

text \<open>Lines 24 to 35: the meeting identifier, or the link-parse error.\<close>

definition extractMeetingId :: "jsstring \<Rightarrow> error + jsstring" where
  "extractMeetingId meetingLink =
    (case search idAt meetingLink of
       Some meetingId \<Rightarrow> Inr meetingId
     | None \<Rightarrow>
        (case search numberAt meetingLink of
           Some meetingId \<Rightarrow> Inr meetingId
         | None \<Rightarrow> Inl (Error (js ''Could not extract Meeting ID from link: '' @ meetingLink))))"

text \<open>
  Lines 20 and 38 to 43: \<open>let password = config.zoom.password || ''\<close>, replaced by the
  \<open>pwd\<close> parameter of the link when it is empty and the link has one.
\<close>

definition extractPassword :: "jsstring option \<Rightarrow> jsstring \<Rightarrow> jsstring" where
  "extractPassword configured meetingLink =
    (let password = orElse configured [] in
     if password = [] then
       (case search pwdAt meetingLink of Some p \<Rightarrow> p | None \<Rightarrow> password)
     else password)"

text \<open>Lines 50 to 56: the deep link.\<close>

definition confnoPrefix :: jsstring where
  "confnoPrefix = js ''zoommtg://zoom.us/join?confno=''"

definition zoomUrl :: "jsstring \<Rightarrow> jsstring \<Rightarrow> jsstring \<Rightarrow> error + jsstring" where
  "zoomUrl meetingId password displayName =
    (let base = confnoPrefix @ meetingId in
     case (if password \<noteq> [] then
             (case encodeURIComponent password of
                Inl e \<Rightarrow> Inl e
              | Inr p \<Rightarrow> Inr (base @ js ''&pwd='' @ p))
           else Inr base) of
       Inl e \<Rightarrow> Inl e
     | Inr withPwd \<Rightarrow>
        (case encodeURIComponent displayName of
           Inl e \<Rightarrow> Inl e
         | Inr n \<Rightarrow> Inr (withPwd @ js ''&uname='' @ n)))"

text \<open>Lines 18 to 56 together: identifier and deep link for a configuration.\<close>

definition deepLink :: "zoomCfg \<Rightarrow> (error + jsstring \<times> jsstring)" where
  "deepLink z =
    (case zoom_meetingLink z of
       None \<Rightarrow> Inl (TypeError (js ''Cannot read properties of undefined (reading 'match')''))
     | Some meetingLink \<Rightarrow>
        (case extractMeetingId meetingLink of
           Inl e \<Rightarrow> Inl e
         | Inr meetingId \<Rightarrow>
            (case zoomUrl meetingId
                    (extractPassword (zoom_password z) meetingLink)
                    (orElse (zoom_displayName z) (js ''Zoom Recorder'')) of
               Inl e \<Rightarrow> Inl e
             | Inr url \<Rightarrow> Inr (meetingId, url))))"

text \<open>
  Lines 150 to 168: the UI automation is best effort; its failures are logged and
  swallowed. The temporary script is removed whenever it was written.
\<close>

definition runAutomation :: "world \<Rightarrow> event list" where
  "runAutomation w =
    (let scriptPath = w_pathJoin w (w_tmpdir w)
                        (js ''zoom-join-'' @ showNat (w_dateNow w) @ js ''.scpt'')
     in case w_writeFile w scriptPath JoinAppleScript of
          Some e \<Rightarrow> [FsWriteFile scriptPath JoinAppleScript, Console (MsgAutomationIssue (errMessage e))]
        | None \<Rightarrow>
           (case w_exec w (RunScriptFile scriptPath) of
              Inl e \<Rightarrow> [FsWriteFile scriptPath JoinAppleScript, Exec (RunScriptFile scriptPath),
                        FsUnlink scriptPath, Console (MsgAutomationIssue (errMessage e))]
            | Inr out \<Rightarrow> [FsWriteFile scriptPath JoinAppleScript, Exec (RunScriptFile scriptPath),
                          FsUnlink scriptPath]))"

definition joinZoomMeeting :: "world \<Rightarrow> config \<Rightarrow> (error + jsstring) \<times> event list" where
  "joinZoomMeeting w cfg =
    (case cfg_zoom cfg of
       None \<Rightarrow> (Inl (TypeError (js ''Cannot read properties of undefined (reading 'meetingLink')'')), [])
     | Some z \<Rightarrow>
        (case deepLink z of
           Inl e \<Rightarrow> (Inl e, [])
         | Inr (meetingId, url) \<Rightarrow>
            (case w_exec w (OpenUrl url) of
               Inl e \<Rightarrow> (Inl e, [Exec (OpenUrl url), Console (MsgOpenFailed (errMessage e))])
             | Inr out \<Rightarrow> (Inr meetingId, Exec (OpenUrl url) # runAutomation w))))"

subsection \<open>monitorMeeting and quitZoom\<close>

definition isWhiteSpace :: "jschar \<Rightarrow> bool" where
  "isWhiteSpace c =
     (c \<in> set [0x09, 0x0A, 0x0B, 0x0C, 0x0D, 0x20, 0xA0, 0x1680, 0x2000, 0x2001, 0x2002, 0x2003,
               0x2004, 0x2005, 0x2006, 0x2007, 0x2008, 0x2009, 0x200A, 0x2028, 0x2029, 0x202F,
               0x205F, 0x3000, 0xFEFF])"

definition trim :: "jsstring \<Rightarrow> jsstring" where
  "trim s = rev (dropWhile isWhiteSpace (rev (dropWhile isWhiteSpace s)))"

text \<open>
  One query every five seconds; the promise resolves with \<open>'ended'\<close> at the first query
  that prints \<open>false\<close> or fails, and stays pending while the window exists.
\<close>

fun monitorPolls :: "(error + jsstring) list \<Rightarrow> event list option" where
  "monitorPolls [] = None"
| "monitorPolls (Inl e # rs) = Some [Exec WindowCheckScript]"
| "monitorPolls (Inr out # rs) =
     (if trim out = js ''false'' then Some [Exec WindowCheckScript]
      else map_option ((#) (Exec WindowCheckScript)) (monitorPolls rs))"

definition monitorMeeting :: "world \<Rightarrow> event list option" where
  "monitorMeeting w = monitorPolls (w_windowPolls w)"

definition quitZoom :: "world \<Rightarrow> event list" where
  "quitZoom w =
    (case w_exec w QuitScript of
       Inr out \<Rightarrow> [Exec QuitScript]
     | Inl e \<Rightarrow>
        [Exec QuitScript, Console MsgQuitFallback] @
        (case w_exec w Killall of
           Inr out \<Rightarrow> [Exec Killall]
         | Inl k \<Rightarrow> [Exec Killall, Console (MsgQuitFailed (errMessage k))]))"

section \<open>Transcriber (transcription.js)\<close>

record transcriptResult =
  tr_transcript :: jsstring
  tr_filePath :: jsstring

definition audioPathOf :: "world \<Rightarrow> jsstring \<Rightarrow> jsstring" where
  "audioPathOf w outputDir = w_pathJoin w outputDir (js ''audio-'' @ showNat (w_dateNow w) @ js ''.mp3'')"

definition extractAudio :: "world \<Rightarrow> jsstring option \<Rightarrow> jsstring \<Rightarrow> (error + jsstring) \<times> event list" where
  "extractAudio w videoPath outputDir =
    (let audioPath = audioPathOf w outputDir in
     case w_extractAudio w videoPath audioPath of
       Some e \<Rightarrow> (Inl e, [FfmpegExtract videoPath audioPath, Console (MsgExtractError (errMessage e))])
     | None \<Rightarrow> (Inr audioPath, [FfmpegExtract videoPath audioPath]))"

text \<open>
  The readiness poll: \<open>getFile\<close> once, and again every two seconds while the state is
  \<open>PROCESSING\<close>. The list holds the successive answers of the remote service; the loop
  has not returned when all of them say \<open>PROCESSING\<close>.
\<close>

fun pollFile :: "jsstring \<Rightarrow> (error + jsstring) list \<Rightarrow> ((error + jsstring) \<times> event list) option" where
  "pollFile name [] = None"
| "pollFile name (Inl e # rs) = Some (Inl e, [GetFile name])"
| "pollFile name (Inr state # rs) =
     (if state = js ''PROCESSING''
      then map_option (\<lambda>(r, evs). (r, GetFile name # evs)) (pollFile name rs)
      else Some (Inr state, [GetFile name]))"

text \<open>
  The body of the inner \<open>try\<close> (lines 58 to 112): upload, readiness poll, transcript
  generation, removal of the local audio file, and the transcript file.
\<close>

definition transcribeAudio ::
  "world \<Rightarrow> jsstring \<Rightarrow> jsstring \<Rightarrow> jsstring \<Rightarrow> ((error + transcriptResult) \<times> event list) option" where
  "transcribeAudio w audioPath outputDir modelName =
    (case w_uploadFile w audioPath of
       Inl e \<Rightarrow> Some (Inl e, [UploadFile audioPath])
     | Inr file \<Rightarrow>
        (case pollFile (rf_name file) (w_getFile w) of
           None \<Rightarrow> None
         | Some (Inl e, polls) \<Rightarrow> Some (Inl e, UploadFile audioPath # polls)
         | Some (Inr state, polls) \<Rightarrow>
            if state = js ''FAILED'' then
              Some (Inl (Error (js ''Gemini file processing failed'')), UploadFile audioPath # polls)
            else
              (let call = GenerateContent modelName (TranscriptRequest file) in
               case w_generate w modelName (TranscriptRequest file) of
                 Inl e \<Rightarrow> Some (Inl e, UploadFile audioPath # polls @ [call])
               | Inr transcriptText \<Rightarrow>
                  (let transcriptPath = w_pathJoin w outputDir
                         (js ''transcript-'' @ showNat (w_dateNow w) @ js ''.txt'');
                       effects = UploadFile audioPath # polls @
                              [call, FsUnlink audioPath, FsWriteFile transcriptPath (Body transcriptText)]
                   in case w_writeFile w transcriptPath (Body transcriptText) of
                        Some e \<Rightarrow> Some (Inl e, effects)
                      | None \<Rightarrow> Some (Inr \<lparr> tr_transcript = transcriptText,
                                             tr_filePath = transcriptPath \<rparr>, effects)))))"

text \<open>
  \<open>transcribeVideo(videoPath, outputDir, modelName = 'gemini-1.5-flash-8b')\<close>: the inner
  \<open>catch\<close> removes the audio file and rethrows; the outer \<open>catch\<close> logs and rethrows.
\<close>

definition transcribeVideo ::
  "world \<Rightarrow> jsstring option \<Rightarrow> jsstring \<Rightarrow> jsstring option
     \<Rightarrow> ((error + transcriptResult) \<times> event list) option" where
  "transcribeVideo w videoPath outputDir modelArg =
    (let modelName = (case modelArg of None \<Rightarrow> js ''gemini-1.5-flash-8b'' | Some m \<Rightarrow> m) in
     if \<not> truthy (w_apiKey w) then
       (let e = Error (js ''GEMINI_API_KEY not found in environment variables'')
        in Some (Inl e, [Console (MsgTranscriptionError (errMessage e))]))
     else
       (case extractAudio w videoPath outputDir of
          (Inl e, evs) \<Rightarrow> Some (Inl e, evs @ [Console (MsgTranscriptionError (errMessage e))])
        | (Inr audioPath, evs) \<Rightarrow>
           (case transcribeAudio w audioPath outputDir modelName of
              None \<Rightarrow> None
            | Some (Inr r, evs2) \<Rightarrow> Some (Inr r, evs @ evs2)
            | Some (Inl e, evs2) \<Rightarrow>
                Some (Inl e, evs @ evs2 @
                        [FsUnlink audioPath, Console (MsgTranscriptionError (errMessage e))]))))"

section \<open>Orchestrator (index.js)\<close>

definition transcriptsDirOf :: "world \<Rightarrow> jsstring \<Rightarrow> jsstring" where
  "transcriptsDirOf w outputDir = w_pathJoin w outputDir (js ''../transcripts'')"

text \<open>
  Lines 73 to 93: transcription and summary share one \<open>try\<close>; whatever is thrown in it
  is logged and swallowed. The result is the pair of \<open>transcriptPath\<close> and
  \<open>summaryPath\<close>.
\<close>

definition postProcess ::
  "world \<Rightarrow> config \<Rightarrow> jsstring option \<Rightarrow> jsstring
     \<Rightarrow> ((jsstring option \<times> jsstring option) \<times> event list) option" where
  "postProcess w cfg recPath transcriptsDir =
    (case cfg_ai cfg of
       None \<Rightarrow>
         Some ((None, None),
               [Console (MsgTranscriptionFailed
                  (js ''Cannot read properties of undefined (reading 'transcriptionModel')''))])
     | Some ai \<Rightarrow>
        (case transcribeVideo w recPath transcriptsDir (ai_transcriptionModel ai) of
           None \<Rightarrow> None
         | Some (Inl e, evs) \<Rightarrow>
             Some ((None, None),
                   Invoke StageTranscribe # evs @ [Console (MsgTranscriptionFailed (errMessage e))])
         | Some (Inr t, evs) \<Rightarrow>
            (case generateSummary w (TranscriptString (tr_transcript t)) transcriptsDir
                    (ai_summaryModel ai) of
               (Inl e, evs2) \<Rightarrow>
                 Some ((Some (tr_filePath t), None),
                       Invoke StageTranscribe # evs @ Invoke StageSummary # evs2 @
                       [Console (MsgTranscriptionFailed (errMessage e))])
             | (Inr s, evs2) \<Rightarrow>
                 Some ((Some (tr_filePath t), Some (sr_filePath s)),
                       Invoke StageTranscribe # evs @ Invoke StageSummary # evs2))))"

text \<open>Lines 100 to 109: a path is reported when it is truthy.\<close>

definition finalReport :: "jsstring option \<Rightarrow> jsstring option \<Rightarrow> jsstring option \<Rightarrow> event list" where
  "finalReport recPath transcriptPath summaryPath =
     (case recPath of Some p \<Rightarrow> if p = [] then [] else [Console (ReportRecording p)] | None \<Rightarrow> [])
   @ (case transcriptPath of Some p \<Rightarrow> if p = [] then [] else [Console (ReportTranscript p)] | None \<Rightarrow> [])
   @ (case summaryPath of Some p \<Rightarrow> if p = [] then [] else [Console (ReportSummary p)] | None \<Rightarrow> [])"

text \<open>Lines 58 to 69: the verification step; its failure is logged and swallowed.\<close>

definition verifyRecording :: "world \<Rightarrow> config \<Rightarrow> jsstring option \<Rightarrow> event list" where
  "verifyRecording w cfg recPath =
    (case cfg_cloudStorage cfg of
       None \<Rightarrow> [Console (MsgVerificationFailed
                  (js ''Cannot read properties of undefined (reading 'provider')''))]
     | Some cs \<Rightarrow>
        (case uploadToCloud w recPath (cloud_provider cs) (cloud_folderName cs) of
           (Inl e, evs) \<Rightarrow> Invoke StageVerify # evs @ [Console (MsgVerificationFailed (errMessage e))]
         | (Inr r, evs) \<Rightarrow> Invoke StageVerify # evs))"

text \<open>
  Lines 44 to 109, after the recording has started: the outcome is the error that
  reaches the outer \<open>catch\<close> (if any), the recorder state and the effects.
\<close>

definition finishSession ::
  "world \<Rightarrow> recorder \<Rightarrow> config \<Rightarrow> jsstring \<Rightarrow> (error option \<times> recorder \<times> event list) option" where
  "finishSession w st cfg transcriptsDir =
    (case monitorMeeting w of
       None \<Rightarrow> None
     | Some mon \<Rightarrow>
        (case stopScreenRecording w st of
           None \<Rightarrow> None
         | Some (Inl e, st', stop) \<Rightarrow>
             Some (Some e, st', Invoke StageMonitor # mon @ Invoke StageStopRecording # stop)
         | Some (Inr recPath, st', stop) \<Rightarrow>
            (let before = Invoke StageMonitor # mon @ Invoke StageStopRecording # stop @
                          Invoke StageQuit # quitZoom w @ verifyRecording w cfg recPath
             in case postProcess w cfg recPath transcriptsDir of
                  None \<Rightarrow> None
                | Some ((transcriptPath, summaryPath), post) \<Rightarrow>
                    Some (None, st', before @ post @ finalReport recPath transcriptPath summaryPath))))"

text \<open>
  The cleanup of the outer \<open>catch\<close> (lines 115 to 125): \<open>recordingPath\<close> is the local
  variable of the session, \<open>getRecordingPath()\<close> the module state.
\<close>

definition cleanupSession ::
  "world \<Rightarrow> recorder \<Rightarrow> jsstring option \<Rightarrow> (recorder \<times> event list) option" where
  "cleanupSession w st localPath =
    (if truthy localPath \<and> truthy (getRecordingPath st) then
       (case stopScreenRecording w st of
          None \<Rightarrow> None
        | Some (r, st', evs) \<Rightarrow> Some (st', evs))
     else Some (st, []))"

definition runRecordingSession ::
  "world \<Rightarrow> recorder \<Rightarrow> config \<Rightarrow> (recorder \<times> event list) option" where
  "runRecordingSession w st cfg =
    (let failed = (\<lambda>e st1 localPath evs.
           case cleanupSession w st1 localPath of
             None \<Rightarrow> None
           | Some (st2, cl) \<Rightarrow> Some (st2, evs @ Console (MsgSessionError (errMessage e)) # cl))
     in case cfg_recording cfg of
       None \<Rightarrow> failed (TypeError (js ''Cannot read properties of undefined (reading 'outputDir')'')) st None []
     | Some rc \<Rightarrow>
        (case rec_outputDir rc of
           None \<Rightarrow> failed (TypeError (js ''The \"path\" argument must be of type string'')) st None []
         | Some outputDir \<Rightarrow>
            (let transcriptsDir = transcriptsDirOf w outputDir in
             case w_mkdir w outputDir of
               Some e \<Rightarrow> failed e st None [FsMkdir outputDir]
             | None \<Rightarrow>
                (case w_mkdir w transcriptsDir of
                   Some e \<Rightarrow> failed e st None [FsMkdir outputDir, FsMkdir transcriptsDir]
                 | None \<Rightarrow>
                    (let dirs = [FsMkdir outputDir, FsMkdir transcriptsDir, Invoke StageJoin] in
                     case joinZoomMeeting w cfg of
                       (Inl e, jn) \<Rightarrow> failed e st None (dirs @ jn)
                     | (Inr meetingId, jn) \<Rightarrow>
                        (case startScreenRecording w st outputDir (rec_quality rc) of
                           (Inl e, st1, rs) \<Rightarrow>
                             failed e st1 None (dirs @ jn @ Invoke StageStartRecording # rs)
                         | (Inr recPath, st1, rs) \<Rightarrow>
                            (case finishSession w st1 cfg transcriptsDir of
                               None \<Rightarrow> None
                             | Some (None, st2, evs) \<Rightarrow>
                                 Some (st2, dirs @ jn @ Invoke StageStartRecording # rs @ evs)
                             | Some (Some e, st2, evs) \<Rightarrow>
                                 failed e st2 (Some recPath)
                                   (dirs @ jn @ Invoke StageStartRecording # rs @ evs))))))))"

text \<open>
  \<open>main()\<close>: a failed \<open>loadConfig\<close> exits with code 1; an immediate run exits with code
  0 after the session; with the schedule enabled the process registers the trigger and
  does not exit.
\<close>

definition main :: "world \<Rightarrow> recorder \<Rightarrow> (recorder \<times> event list) option" where
  "main w st =
    (case loadConfig w of
       (Inl e, evs) \<Rightarrow> Some (st, evs @ [Console (MsgFatal (errMessage e)), ProcessExit 1])
     | (Inr cfg, evs) \<Rightarrow>
        (let once = (case runRecordingSession w st cfg of
                       None \<Rightarrow> None
                     | Some (st', ses) \<Rightarrow> Some (st', evs @ ses @ [ProcessExit 0]))
         in if w_argvNow w then once
            else (case cfg_schedule cfg of
                    None \<Rightarrow> once
                  | Some sc \<Rightarrow>
                     if sched_enabled sc then
                       (case w_cronSchedule w (sched_cronExpression sc) (sched_timezone sc) of
                          Some e \<Rightarrow> Some (st, evs @ [Console (MsgFatal (errMessage e)), ProcessExit 1])
                        | None \<Rightarrow> Some (st, evs @ [CronSchedule (sched_cronExpression sc) (sched_timezone sc)]))
                     else once)))"

text \<open>The parts of a string between occurrences of a separator (\<open>split\<close>).\<close>

fun splitOn :: "jschar \<Rightarrow> jsstring \<Rightarrow> jsstring list" where
  "splitOn sep [] = [[]]"
| "splitOn sep (c # cs) =
     (if c = sep then [] # splitOn sep cs
      else (case splitOn sep cs of [] \<Rightarrow> [[c]] | p # ps \<Rightarrow> (c # p) # ps))"

text \<open>
  Observations on the effects of a session: the lines of the final report, and whether
  the configuration enables the schedule.
\<close>

fun reported :: "event list \<Rightarrow> message list" where
  "reported [] = []"
| "reported (Console (ReportRecording p) # evs) = ReportRecording p # reported evs"
| "reported (Console (ReportTranscript p) # evs) = ReportTranscript p # reported evs"
| "reported (Console (ReportSummary p) # evs) = ReportSummary p # reported evs"
| "reported (e # evs) = reported evs"

definition scheduled :: "config \<Rightarrow> bool" where
  "scheduled cfg = (case cfg_schedule cfg of None \<Rightarrow> False | Some sc \<Rightarrow> sched_enabled sc)"

section \<open>Concrete environments\<close>

text \<open>A world in which every collaborator succeeds; the examples vary it field by field.\<close>

definition calmWorld :: world where
  "calmWorld =
    \<lparr> w_pathJoin = (\<lambda>a b. a @ js ''/'' @ b),
      w_isoNow = js ''2024-05-01T10:20:30.123Z'',
      w_dateNow = 1714558830123,
      w_tmpdir = js ''/tmp'',
      w_apiKey = Some (js ''key''),
      w_argvNow = True,
      w_configFile = ReadFailed (SystemError (js ''ENOENT'') (js ''no such file'')),
      w_mkdir = (\<lambda>p. None),
      w_writeFile = (\<lambda>p c. None),
      w_unlink = (\<lambda>p. None),
      w_access = (\<lambda>p. None),
      w_stat = (\<lambda>p. Inr 1048576),
      w_exec = (\<lambda>c. Inr []),
      w_windowPolls = [Inr (js ''true''), Inr (js ''false'')],
      w_spawnError = None,
      w_close = Some (Some 0),
      w_extractAudio = (\<lambda>v a. None),
      w_uploadFile = (\<lambda>p. Inr \<lparr> rf_uri = js ''files/1'', rf_name = js ''files/1'', rf_mimeType = js ''audio/mp3'' \<rparr>),
      w_getFile = [Inr (js ''PROCESSING''), Inr (js ''ACTIVE'')],
      w_generate = (\<lambda>m r. Inr (js ''[00:00] hello'')),
      w_cronSchedule = (\<lambda>c t. None) \<rparr>"

definition noFfmpegWorld :: world where
  "noFfmpegWorld =
     calmWorld\<lparr> w_spawnError := Some (SystemError (js ''ENOENT'') (js ''spawn ffmpeg ENOENT'')) \<rparr>"

definition uploadFailWorld :: world where
  "uploadFailWorld =
     calmWorld\<lparr> w_uploadFile := (\<lambda>p. Inl (SystemError (js ''ECONNRESET'') (js ''upload failed''))) \<rparr>"

definition noLinkConfig :: config where
  "noLinkConfig =
    \<lparr> cfg_zoom = Some \<lparr> zoom_meetingLink = None, zoom_password = None, zoom_displayName = Some (js ''Recorder'') \<rparr>,
      cfg_cloudStorage = Some \<lparr> cloud_provider = Some (js ''local''), cloud_folderName = None \<rparr>,
      cfg_recording = None, cfg_ai = None, cfg_schedule = None \<rparr>"

definition readyConfig :: config where
  "readyConfig =
    \<lparr> cfg_zoom = Some \<lparr> zoom_meetingLink = Some (js ''https://zoom.us/j/123456789?pwd=abc''),
                         zoom_password = Some [], zoom_displayName = Some (js ''Your Name'') \<rparr>,
      cfg_cloudStorage = Some \<lparr> cloud_provider = Some (js ''local''), cloud_folderName = Some (js ''Zoom Recordings'') \<rparr>,
      cfg_recording = Some \<lparr> rec_outputDir = Some (js ''/rec''), rec_quality = Some (js ''medium'') \<rparr>,
      cfg_ai = Some \<lparr> ai_transcriptionModel = Some (js ''gemini-1.5-flash''), ai_summaryModel = Some (js ''gemini-1.5-flash'') \<rparr>,
      cfg_schedule = Some \<lparr> sched_enabled = False, sched_cronExpression = None, sched_timezone = None \<rparr> \<rparr>"

definition noKeyWorld :: world where
  "noKeyWorld = calmWorld\<lparr> w_apiKey := None, w_configFile := Document readyConfig, w_argvNow := False \<rparr>"


definition secretZoom :: zoomCfg where
  "secretZoom = \<lparr> zoom_meetingLink = Some (js ''https://zoom.us/j/123456789?pwd=abc''),
                   zoom_password = Some (js ''s3cret&x''), zoom_displayName = Some (js ''Your Name'') \<rparr>"

definition linkPwdZoom :: zoomCfg where
  "linkPwdZoom = \<lparr> zoom_meetingLink = Some (js ''https://zoom.us/j/123456789?pwd=abc''),
                    zoom_password = Some [], zoom_displayName = Some (js ''Your Name'') \<rparr>"

definition publicZoom :: zoomCfg where
  "publicZoom = \<lparr> zoom_meetingLink = Some (js ''https://zoom.us/j/123456789''),
                   zoom_password = None, zoom_displayName = None \<rparr>"


section \<open>Properties of the screen recorder\<close>

lemma getQuality_high: "getQuality (js ''high'') = Some (Own \<lparr> resolution = js ''1920x1080'', bitrate = js ''5000k'', framerate = 30 \<rparr>)"
  by (simp add: getQuality_def qualitySettings_def js_def)

lemma selectSettings_named:
  "selectSettings (js ''high'') = Own \<lparr> resolution = js ''1920x1080'', bitrate = js ''5000k'', framerate = 30 \<rparr>"
  "selectSettings (js ''medium'') = Own \<lparr> resolution = js ''1280x720'', bitrate = js ''2500k'', framerate = 30 \<rparr>"
  "selectSettings (js ''low'') = Own \<lparr> resolution = js ''854x480'', bitrate = js ''1000k'', framerate = 24 \<rparr>"
  by (simp_all add: selectSettings_def getQuality_def qualitySettings_def js_def)

lemma selectSettings_unknown:
  assumes "quality \<notin> {js ''high'', js ''medium'', js ''low''}" and "quality \<notin> set objectPrototypeKeys"
  shows "selectSettings quality = Own \<lparr> resolution = js ''1920x1080'', bitrate = js ''5000k'', framerate = 30 \<rparr>"
  using assms by (simp add: selectSettings_def getQuality_def qualitySettings_def js_def)

lemma selectSettings_inherited:
  assumes "quality \<in> set objectPrototypeKeys"
  shows "selectSettings quality = Inherited"
proof -
  have "map_of qualitySettings quality = None"
    using assms by (auto simp: qualitySettings_def objectPrototypeKeys_def js_def)
  then show ?thesis using assms by (simp add: selectSettings_def getQuality_def)
qed

text \<open>
  C4. The tiers \<open>high\<close>, \<open>medium\<close> and \<open>low\<close> select 1920x1080 at 30 fps, 1280x720 at
  30 fps and 854x480 at 24 fps. The claim that every other string selects the default
  fails on the code: for the quality string \<open>constructor\<close> (a property every object
  literal inherits) the lookup returns a truthy value, the \<open>||\<close> fallback is not taken,
  and startScreenRecording throws a \<open>TypeError\<close> instead of recording at the default
  settings.
\<close>

theorem startScreenRecording_constructor_throws:
  "fst (startScreenRecording calmWorld recorderInit (js ''/rec'') (Some (js ''constructor'')))
     = Inl (TypeError (js ''Cannot read properties of undefined (reading 'toString')''))
   \<and> selectSettings (js ''constructor'') \<noteq> selectSettings (js ''high'')"
proof -
  have "selectSettings (js ''constructor'') = Inherited"
    by (rule selectSettings_inherited) (simp add: objectPrototypeKeys_def)
  then show ?thesis
    by (simp add: startScreenRecording_def calmWorld_def selectSettings_named)
qed

text \<open>
  C8 (as the code has it). The \<open>'error'\<close> handler of the capture subprocess only
  writes to the console, so a missing binary does not reach the caller: when the output
  directory can be created and the quality selects a preset, startScreenRecording prints
  the actionable FFmpeg-not-found message, keeps the process handle and returns the
  recording path normally.
\<close>

theorem startScreenRecording_missing_binary:
  assumes "w_mkdir w outputDir = None"
    and "selectSettings (case q of None \<Rightarrow> js ''high'' | Some x \<Rightarrow> x) = Own s"
    and "w_spawnError w = Some e" and "errCode e = Some (js ''ENOENT'')"
  shows "\<exists>path st' evs. startScreenRecording w st outputDir q = (Inr path, st', evs)
          \<and> Console MsgFfmpegNotFound \<in> set evs
          \<and> recordingPath st' = Some path \<and> ffmpegProcess st' \<noteq> None"
  using assms by (simp add: startScreenRecording_def Let_def spawnErrorLog_def)

theorem startScreenRecording_missing_binary_returns:
  "fst (startScreenRecording noFfmpegWorld recorderInit (js ''/rec'') (Some (js ''high'')))
    = Inr (js ''/rec/zoom-recording-2024-05-01T10-20-30-123Z.mp4'')"
  by (simp add: startScreenRecording_def noFfmpegWorld_def calmWorld_def selectSettings_named Let_def)
     (simp add: recordingFileOf_def timestampOf_def js_def)

theorem startScreenRecording_missing_binary_witness:
  "\<exists>path st' evs. startScreenRecording noFfmpegWorld recorderInit (js ''/rec'') (Some (js ''medium'')) = (Inr path, st', evs)
          \<and> Console MsgFfmpegNotFound \<in> set evs
          \<and> recordingPath st' = Some path \<and> ffmpegProcess st' \<noteq> None"
  by (rule startScreenRecording_missing_binary [where e = "SystemError (js ''ENOENT'') (js ''spawn ffmpeg ENOENT'')"])
     (simp_all add: noFfmpegWorld_def calmWorld_def selectSettings_named)



section \<open>Properties of the summariser\<close>

lemma truncationMarker_nonempty: "truncationMarker \<noteq> []"
  by (simp add: truncationMarker_def)

text \<open>
  C7. The prompt of generateSummary is the fixed preamble followed by the first 30,000
  code units of the transcript text; the truncation marker follows exactly when the text
  is longer than 30,000, and a text of at most 30,000 is included as it is, with nothing
  after it. With the credential present, this prompt is what generateSummary submits to
  the model.
\<close>

theorem generateSummary_prompt_truncation:
  "(length t \<le> 30000 \<longrightarrow> summaryPrompt t = summaryPreamble @ t)
   \<and> (30000 < length t \<longrightarrow> summaryPrompt t = summaryPreamble @ take 30000 t @ truncationMarker)
   \<and> (summaryPrompt t = summaryPreamble @ take 30000 t @ truncationMarker \<longleftrightarrow> 30000 < length t)
   \<and> (\<exists>body. summaryPrompt t = summaryPreamble @ take 30000 t @ body \<and> (body = [] \<or> body = truncationMarker))
   \<and> (truthy (w_apiKey w) \<longrightarrow>
        (\<exists>model rest. snd (generateSummary w tr dir m)
           = GenerateContent model (PromptRequest (summaryPrompt (transcriptTextOf tr))) # rest))"
proof -
  have m: "[] \<noteq> truncationMarker" using truncationMarker_nonempty by simp
  have p: "(length t \<le> 30000 \<longrightarrow> summaryPrompt t = summaryPreamble @ t)
   \<and> (30000 < length t \<longrightarrow> summaryPrompt t = summaryPreamble @ take 30000 t @ truncationMarker)
   \<and> (summaryPrompt t = summaryPreamble @ take 30000 t @ truncationMarker \<longleftrightarrow> 30000 < length t)
   \<and> (\<exists>body. summaryPrompt t = summaryPreamble @ take 30000 t @ body \<and> (body = [] \<or> body = truncationMarker))"
    using m by (simp add: summaryPrompt_def)
  have g: "truthy (w_apiKey w) \<longrightarrow>
        (\<exists>model rest. snd (generateSummary w tr dir m)
           = GenerateContent model (PromptRequest (summaryPrompt (transcriptTextOf tr))) # rest)"
    by (simp add: generateSummary_def Let_def split: sum.splits option.splits)
  from p g show ?thesis by blast
qed

theorem generateSummary_prompt_truncation_witness:
  "summaryPrompt (js ''[00:01] hello'') = summaryPreamble @ js ''[00:01] hello''
   \<and> summaryPrompt (replicate 30001 0x61) = summaryPreamble @ replicate 30000 0x61 @ truncationMarker
   \<and> (\<exists>model rest. snd (generateSummary calmWorld (TranscriptString (js ''[00:01] hello'')) (js ''/t'') None)
           = GenerateContent model (PromptRequest (summaryPreamble @ js ''[00:01] hello'')) # rest)"
proof -
  have k: "truthy (w_apiKey calmWorld)" by (simp add: calmWorld_def truthy_def js_def)
  have l1: "length (js ''[00:01] hello'') \<le> 30000" by (simp add: js_def)
  have l2: "30000 < length (replicate 30001 (0x61::jschar))" by simp
  have t: "take 30000 (replicate 30001 (0x61::jschar)) = replicate 30000 0x61" by simp
  note a = generateSummary_prompt_truncation [of "js ''[00:01] hello''" calmWorld "TranscriptString (js ''[00:01] hello'')" "js ''/t''" None]
  note b = generateSummary_prompt_truncation [of "replicate 30001 0x61" calmWorld "TranscriptString (js ''[00:01] hello'')" "js ''/t''" None]
  from a l1 have 1: "summaryPrompt (js ''[00:01] hello'') = summaryPreamble @ js ''[00:01] hello''" by blast
  from b l2 t have 2: "summaryPrompt (replicate 30001 0x61) = summaryPreamble @ replicate 30000 0x61 @ truncationMarker" by simp
  from a k have "\<exists>model rest. snd (generateSummary calmWorld (TranscriptString (js ''[00:01] hello'')) (js ''/t'') None)
           = GenerateContent model (PromptRequest (summaryPrompt (transcriptTextOf (TranscriptString (js ''[00:01] hello''))))) # rest"
    by blast
  then have 3: "\<exists>model rest. snd (generateSummary calmWorld (TranscriptString (js ''[00:01] hello'')) (js ''/t'') None)
           = GenerateContent model (PromptRequest (summaryPreamble @ js ''[00:01] hello'')) # rest"
    using 1 by (simp add: transcriptTextOf_def)
  from 1 2 3 show ?thesis by blast
qed

section \<open>Properties of the storage verifier\<close>

text \<open>
  C10. Whatever the provider argument (one of the known providers, any other string, or
  none), uploadToCloud returns the descriptor whose \<open>webUrl\<close> and \<open>shareLink\<close> are
  \<open>file://\<close> followed by the path when the path is accessible, and throws the error of
  the accessibility check exactly when that check fails.
\<close>

theorem uploadToCloud_any_provider:
  "fst (uploadToCloud w (Some p) provider folderName)
     = (case w_access w p of
          None \<Rightarrow> Inr \<lparr> webUrl = js ''file://'' @ p, shareLink = js ''file://'' @ p \<rparr>
        | Some e \<Rightarrow> Inl e)"
  by (simp add: uploadToCloud_def fsAccess_def Let_def split: option.splits)

theorem uploadToCloud_any_provider_witness:
  "fst (uploadToCloud calmWorld (Some (js ''/rec/a.mp4'')) (Some (js ''dropbox'')) None)
     = Inr \<lparr> webUrl = js ''file:///rec/a.mp4'', shareLink = js ''file:///rec/a.mp4'' \<rparr>
   \<and> fst (uploadToCloud (calmWorld\<lparr> w_access := (\<lambda>p. Some (SystemError (js ''ENOENT'') (js ''no such file''))) \<rparr>)
            (Some (js ''/rec/a.mp4'')) (Some (js ''local'')) None)
     = Inl (SystemError (js ''ENOENT'') (js ''no such file''))"
  using uploadToCloud_any_provider [of calmWorld "js ''/rec/a.mp4''" "Some (js ''dropbox'')" None]
        uploadToCloud_any_provider [of "calmWorld\<lparr> w_access := (\<lambda>p. Some (SystemError (js ''ENOENT'') (js ''no such file''))) \<rparr>"
           "js ''/rec/a.mp4''" "Some (js ''local'')" None]
  by (simp add: calmWorld_def js_def)

section \<open>Properties of the transcriber\<close>

text \<open>
  C9. Once the audio has been extracted, every failure of transcribeVideo (at the
  upload, the readiness poll, the transcript generation, or later) ends with the attempt
  to delete the local audio file followed by the log line of the rethrown error; and a
  failure of the upload, of a readiness query, a \<open>FAILED\<close> state and a failure of the
  generation each make transcribeVideo return with that error.
\<close>

theorem transcribeVideo_failure_unlinks_audio:
  assumes "truthy (w_apiKey w)"
    and "w_extractAudio w video (audioPathOf w dir) = None"
  shows "(\<forall>e evs. transcribeVideo w video dir m = Some (Inl e, evs) \<longrightarrow>
            (\<exists>pre. evs = pre @ [FsUnlink (audioPathOf w dir), Console (MsgTranscriptionError (errMessage e))]))
    \<and> (\<forall>e. w_uploadFile w (audioPathOf w dir) = Inl e \<longrightarrow>
            (\<exists>evs. transcribeVideo w video dir m = Some (Inl e, evs)))
    \<and> (\<forall>f e polls. w_uploadFile w (audioPathOf w dir) = Inr f
            \<and> pollFile (rf_name f) (w_getFile w) = Some (Inl e, polls) \<longrightarrow>
            (\<exists>evs. transcribeVideo w video dir m = Some (Inl e, evs)))
    \<and> (\<forall>f polls. w_uploadFile w (audioPathOf w dir) = Inr f
            \<and> pollFile (rf_name f) (w_getFile w) = Some (Inr (js ''FAILED''), polls) \<longrightarrow>
            (\<exists>evs. transcribeVideo w video dir m = Some (Inl (Error (js ''Gemini file processing failed'')), evs)))
    \<and> (\<forall>f state polls e. w_uploadFile w (audioPathOf w dir) = Inr f
            \<and> pollFile (rf_name f) (w_getFile w) = Some (Inr state, polls) \<and> state \<noteq> js ''FAILED''
            \<and> w_generate w (case m of None \<Rightarrow> js ''gemini-1.5-flash-8b'' | Some x \<Rightarrow> x) (TranscriptRequest f) = Inl e \<longrightarrow>
            (\<exists>evs. transcribeVideo w video dir m = Some (Inl e, evs)))"
  using assms
  by (auto simp: transcribeVideo_def transcribeAudio_def extractAudio_def Let_def
           split: option.splits sum.splits prod.splits if_splits)


theorem transcribeVideo_failure_unlinks_audio_witness:
  "\<exists>pre. transcribeVideo uploadFailWorld (Some (js ''/rec/a.mp4'')) (js ''/t'') None
      = Some (Inl (SystemError (js ''ECONNRESET'') (js ''upload failed'')),
              pre @ [FsUnlink (audioPathOf uploadFailWorld (js ''/t'')),
                     Console (MsgTranscriptionError (js ''upload failed''))])"
proof -
  have k: "truthy (w_apiKey uploadFailWorld)"
    by (simp add: uploadFailWorld_def calmWorld_def truthy_def js_def)
  have x: "w_extractAudio uploadFailWorld (Some (js ''/rec/a.mp4'')) (audioPathOf uploadFailWorld (js ''/t'')) = None"
    by (simp add: uploadFailWorld_def calmWorld_def)
  have u: "w_uploadFile uploadFailWorld (audioPathOf uploadFailWorld (js ''/t''))
             = Inl (SystemError (js ''ECONNRESET'') (js ''upload failed''))"
    by (simp add: uploadFailWorld_def)
  note t = transcribeVideo_failure_unlinks_audio [OF k x, of None]
  from t u obtain evs where
    r: "transcribeVideo uploadFailWorld (Some (js ''/rec/a.mp4'')) (js ''/t'') None
          = Some (Inl (SystemError (js ''ECONNRESET'') (js ''upload failed'')), evs)"
    by blast
  with t obtain pre where
    "evs = pre @ [FsUnlink (audioPathOf uploadFailWorld (js ''/t'')),
                  Console (MsgTranscriptionError (errMessage (SystemError (js ''ECONNRESET'') (js ''upload failed''))))]"
    by blast
  with r show ?thesis by simp
qed

section \<open>Properties of the configuration loader and the orchestrator\<close>

lemma invoked_append: "invoked (xs @ ys) = invoked xs @ invoked ys"
  by (induction xs rule: invoked.induct) simp_all

lemma reported_append: "reported (xs @ ys) = reported xs @ reported ys"
  by (induction xs rule: reported.induct) simp_all

text \<open>
  C5. A configuration document without \<open>zoom.meetingLink\<close> (or without \<open>zoom\<close>)
  makes loadConfig fail with the validation error; \<open>main\<close> then logs the error and
  exits with code 1 without invoking any stage and without running any command.
\<close>

theorem loadConfig_missing_meetingLink:
  assumes "w_configFile w = Document c"
    and "cfg_zoom c = None \<or> (\<exists>z. cfg_zoom c = Some z \<and> zoom_meetingLink z = None)"
  shows "fst (loadConfig w) = Inl (Error (js ''Missing required zoom configuration (meetingLink, displayName)''))
     \<and> (\<exists>evs. main w st = Some (st, evs) \<and> invoked evs = []
            \<and> (\<forall>cmd. Exec cmd \<notin> set evs) \<and> last evs = ProcessExit 1)"
proof -
  let ?e = "Error (js ''Missing required zoom configuration (meetingLink, displayName)'')"
  have v: "validateConfig c = Some ?e"
    using assms(2) by (auto simp: validateConfig_def truthy_def)
  have l: "loadConfig w = (Inl ?e, [Console (MsgConfigError (errMessage ?e))])"
    using assms(1) v by (simp add: loadConfig_def configErrorLog_def)
  have m: "main w st = Some (st, [Console (MsgConfigError (errMessage ?e)), Console (MsgFatal (errMessage ?e)), ProcessExit 1])"
    using l by (simp add: main_def)
  show ?thesis using l m by simp
qed

theorem loadConfig_missing_meetingLink_witness:
  "fst (loadConfig (calmWorld\<lparr> w_configFile := Document noLinkConfig \<rparr>))
      = Inl (Error (js ''Missing required zoom configuration (meetingLink, displayName)''))
   \<and> (\<exists>evs. main (calmWorld\<lparr> w_configFile := Document noLinkConfig \<rparr>) recorderInit = Some (recorderInit, evs)
          \<and> invoked evs = [] \<and> last evs = ProcessExit 1)"
proof -
  have a: "w_configFile (calmWorld\<lparr> w_configFile := Document noLinkConfig \<rparr>) = Document noLinkConfig" by simp
  have b: "cfg_zoom noLinkConfig = None \<or> (\<exists>z. cfg_zoom noLinkConfig = Some z \<and> zoom_meetingLink z = None)"
    by (simp add: noLinkConfig_def)
  from loadConfig_missing_meetingLink [OF a b, of recorderInit] show ?thesis by blast
qed

lemma quiet_join: "invoked (snd (joinZoomMeeting w cfg)) = [] \<and> reported (snd (joinZoomMeeting w cfg)) = []"
  by (simp add: joinZoomMeeting_def runAutomation_def Let_def split: option.splits sum.splits prod.splits)

lemma quiet_start:
  "invoked (snd (snd (startScreenRecording w st d q))) = []
   \<and> reported (snd (snd (startScreenRecording w st d q))) = []"
  by (simp add: startScreenRecording_def spawnErrorLog_def Let_def split: option.splits property.splits)

lemma quiet_monitorPolls: "monitorPolls ps = Some evs \<Longrightarrow> invoked evs = [] \<and> reported evs = []"
  by (induction ps arbitrary: evs rule: monitorPolls.induct) (auto split: if_splits)

lemma quiet_stop:
  "stopScreenRecording w st = Some (r, st', evs) \<Longrightarrow> invoked evs = [] \<and> reported evs = []"
  by (auto simp: stopScreenRecording_def Let_def split: option.splits sum.splits if_splits)

lemma quiet_quit: "invoked (quitZoom w) = [] \<and> reported (quitZoom w) = []"
  by (simp add: quitZoom_def split: sum.splits)

lemma quiet_verify:
  "StageTranscribe \<notin> set (invoked (verifyRecording w cfg p))
   \<and> StageSummary \<notin> set (invoked (verifyRecording w cfg p))
   \<and> reported (verifyRecording w cfg p) = []"
  by (simp add: verifyRecording_def uploadToCloud_def Let_def invoked_append reported_append
           split: option.splits sum.splits prod.splits)

lemma quiet_pollFile: "pollFile n ps = Some (r, evs) \<Longrightarrow> invoked evs = [] \<and> reported evs = []"
  by (induction n ps arbitrary: r evs rule: pollFile.induct) (auto split: if_splits)

lemma quiet_transcribeAudio:
  "transcribeAudio w a d m = Some (r, evs) \<Longrightarrow> invoked evs = [] \<and> reported evs = []"
  by (auto simp: transcribeAudio_def Let_def invoked_append reported_append
           dest: quiet_pollFile split: option.splits sum.splits prod.splits if_splits)

lemma quiet_transcribe:
  "transcribeVideo w v d m = Some (r, evs) \<Longrightarrow> invoked evs = [] \<and> reported evs = []"
  by (auto simp: transcribeVideo_def extractAudio_def Let_def invoked_append reported_append
           dest: quiet_transcribeAudio split: option.splits sum.splits prod.splits if_splits)

lemma quiet_cleanup:
  "cleanupSession w st p = Some (st', evs) \<Longrightarrow> invoked evs = [] \<and> reported evs = []"
  by (auto simp: cleanupSession_def dest: quiet_stop split: option.splits if_splits)

lemma postProcess_throws:
  assumes "cfg_ai cfg = Some ai"
    and "transcribeVideo w p d (ai_transcriptionModel ai) = Some (Inl e, tevs)"
  shows "postProcess w cfg p d
          = Some ((None, None), Invoke StageTranscribe # tevs @ [Console (MsgTranscriptionFailed (errMessage e))])"
  using assms by (simp add: postProcess_def)

lemma start_success:
  assumes "startScreenRecording w st d q = (Inr p, st1, rs)"
  shows "p = recordingFileOf w d \<and> recordingPath st1 = Some p \<and> ffmpegProcess st1 \<noteq> None"
  using assms
  by (auto simp: startScreenRecording_def Let_def split: option.splits property.splits)

lemma stop_success:
  assumes "stopScreenRecording w st1 = Some (Inr r, st2, evs)" and "ffmpegProcess st1 \<noteq> None"
  shows "r = recordingPath st1"
  using assms
  by (auto simp: stopScreenRecording_def Let_def split: option.splits sum.splits if_splits)


lemma finishSession_failed_stage:
  assumes "finishSession w st1 cfg tdir = Some (Some err, st2, evs)"
  shows "invoked evs = [StageMonitor, StageStopRecording] \<and> reported evs = []"
proof -
  from assms obtain mon where m: "monitorMeeting w = Some mon"
    by (auto simp: finishSession_def split: option.splits)
  from assms m obtain stop where s: "stopScreenRecording w st1 = Some (Inl err, st2, stop)"
    and e: "evs = Invoke StageMonitor # mon @ Invoke StageStopRecording # stop"
    by (auto simp: finishSession_def Let_def split: option.splits sum.splits prod.splits)
  from m have qm: "invoked mon = [] \<and> reported mon = []"
    by (simp add: monitorMeeting_def quiet_monitorPolls)
  from s have qs: "invoked stop = [] \<and> reported stop = []" by (rule quiet_stop)
  show ?thesis using e qm qs by (simp add: invoked_append reported_append)
qed

lemma finishSession_throws:
  assumes ai: "cfg_ai cfg = Some ai"
    and st1: "recordingPath st1 = Some p" "ffmpegProcess st1 \<noteq> None" and p: "p \<noteq> []"
    and throws: "transcribeVideo w (Some p) tdir (ai_transcriptionModel ai) = Some (Inl e, tevs)"
    and fin: "finishSession w st1 cfg tdir = Some (None, st2, evs)"
  shows "StageTranscribe \<in> set (invoked evs) \<and> StageSummary \<notin> set (invoked evs)
     \<and> reported evs = [ReportRecording p]
     \<and> (\<exists>pre. evs = pre @ [Console (MsgTranscriptionFailed (errMessage e)), Console (ReportRecording p)])"
proof -
  from fin obtain mon where m: "monitorMeeting w = Some mon"
    by (auto simp: finishSession_def split: option.splits)
  from fin m obtain recPath stop where s: "stopScreenRecording w st1 = Some (Inr recPath, st2, stop)"
    by (auto simp: finishSession_def Let_def split: option.splits sum.splits prod.splits)
  from stop_success [OF s st1(2)] st1(1) have rp: "recPath = Some p" by simp
  have pp: "postProcess w cfg (Some p) tdir
          = Some ((None, None), Invoke StageTranscribe # tevs @ [Console (MsgTranscriptionFailed (errMessage e))])"
    by (rule postProcess_throws [OF ai throws])
  have fr: "finalReport (Some p) None None = [Console (ReportRecording p)]"
    using p by (simp add: finalReport_def)
  let ?before = "Invoke StageMonitor # mon @ Invoke StageStopRecording # stop @
                 Invoke StageQuit # quitZoom w @ verifyRecording w cfg (Some p)"
  from fin m s rp pp fr
  have e: "evs = ?before @ (Invoke StageTranscribe # tevs @ [Console (MsgTranscriptionFailed (errMessage e))])
                 @ [Console (ReportRecording p)]"
    by (simp add: finishSession_def Let_def)
  from m have qm: "invoked mon = [] \<and> reported mon = []"
    by (simp add: monitorMeeting_def quiet_monitorPolls)
  from s have qs: "invoked stop = [] \<and> reported stop = []" by (rule quiet_stop)
  from throws have qt: "invoked tevs = [] \<and> reported tevs = []" by (rule quiet_transcribe)
  note qv = quiet_verify [of w cfg "Some p"] and qq = quiet_quit [of w]
  have 1: "StageTranscribe \<in> set (invoked evs) \<and> StageSummary \<notin> set (invoked evs)"
    using e qm qs qt qv qq by (simp add: invoked_append)
  have 2: "reported evs = [ReportRecording p]"
    using e qm qs qt qv qq by (simp add: reported_append)
  have 3: "\<exists>pre. evs = pre @ [Console (MsgTranscriptionFailed (errMessage e)), Console (ReportRecording p)]"
    using e by (intro exI [of _ "?before @ Invoke StageTranscribe # tevs"]) simp
  from 1 2 3 show ?thesis by blast
qed


lemma session_reaches_transcription:
  assumes cfg: "cfg_recording cfg = Some rc" "rec_outputDir rc = Some outputDir"
    and ses: "runRecordingSession w st cfg = Some (st', evs)"
    and reached: "StageTranscribe \<in> set (invoked evs)"
  shows "\<exists>st1 pre fevs.
            recordingPath st1 = Some (recordingFileOf w outputDir) \<and> ffmpegProcess st1 \<noteq> None
          \<and> finishSession w st1 cfg (transcriptsDirOf w outputDir) = Some (None, st', fevs)
          \<and> evs = pre @ fevs \<and> invoked pre = [StageJoin, StageStartRecording] \<and> reported pre = []"
proof (cases "w_mkdir w outputDir")
  case (Some e0)
  with cfg ses reached show ?thesis
    by (auto simp: runRecordingSession_def Let_def invoked_append
             dest!: quiet_cleanup split: option.splits prod.splits)
next
  case None
  note m1 = this
  show ?thesis
  proof (cases "w_mkdir w (transcriptsDirOf w outputDir)")
    case (Some e0)
    with cfg ses reached m1 show ?thesis
      by (auto simp: runRecordingSession_def Let_def invoked_append
               dest!: quiet_cleanup split: option.splits prod.splits)
  next
    case None
    note m2 = this
    obtain jr jn where j: "joinZoomMeeting w cfg = (jr, jn)" by (cases "joinZoomMeeting w cfg")
    from quiet_join [of w cfg] j have qj: "invoked jn = []" "reported jn = []" by simp_all
    show ?thesis
    proof (cases jr)
      case (Inl e0)
      with cfg ses reached m1 m2 j qj show ?thesis
        by (auto simp: runRecordingSession_def Let_def invoked_append
                 dest!: quiet_cleanup split: option.splits prod.splits)
    next
      case (Inr meetingId)
      note jr = this
      obtain sr st1 rs where s: "startScreenRecording w st outputDir (rec_quality rc) = (sr, st1, rs)"
        by (cases "startScreenRecording w st outputDir (rec_quality rc)")
      from quiet_start [of w st outputDir "rec_quality rc"] s
      have qs: "invoked rs = []" "reported rs = []" by simp_all
      show ?thesis
      proof (cases sr)
        case (Inl e0)
        with cfg ses reached m1 m2 j jr qj s qs show ?thesis
          by (auto simp: runRecordingSession_def Let_def invoked_append
                   dest!: quiet_cleanup split: option.splits prod.splits)
      next
        case (Inr recPath)
        note sr = this
        from start_success [of w st outputDir "rec_quality rc" recPath st1 rs] s sr
        have st1: "recPath = recordingFileOf w outputDir" "recordingPath st1 = Some recPath"
                  "ffmpegProcess st1 \<noteq> None" by simp_all
        from cfg ses m1 m2 j jr s sr obtain fr st2 fevs where
          f: "finishSession w st1 cfg (transcriptsDirOf w outputDir) = Some (fr, st2, fevs)"
          by (auto simp: runRecordingSession_def Let_def split: option.splits prod.splits)
        show ?thesis
        proof (cases fr)
          case (Some err)
          from finishSession_failed_stage [of w st1 cfg "transcriptsDirOf w outputDir" err st2 fevs] f Some
          have "invoked fevs = [StageMonitor, StageStopRecording]" by simp
          with cfg ses reached m1 m2 j jr qj s sr qs f Some show ?thesis
            by (auto simp: runRecordingSession_def Let_def invoked_append
                     dest!: quiet_cleanup split: option.splits prod.splits)
        next
          case None
          let ?pre = "[FsMkdir outputDir, FsMkdir (transcriptsDirOf w outputDir), Invoke StageJoin]
                      @ jn @ Invoke StageStartRecording # rs"
          from cfg ses m1 m2 j jr s sr f None
          have e: "evs = ?pre @ fevs" and t: "st' = st2"
            by (simp_all add: runRecordingSession_def Let_def)
          have i: "invoked ?pre = [StageJoin, StageStartRecording]" "reported ?pre = []"
            using qj qs by (simp_all add: invoked_append reported_append)
          from st1 f None e t i show ?thesis by blast
        qed
      qed
    qed
  qed
qed


text \<open>
  C6. Take a session that reached the transcription stage, and let that stage throw.
  Then the summary stage is not invoked, the final report is the single line of the
  recording path (no transcript and no summary line), printed right after the warning
  about the failed transcription, and an immediate run of \<open>main\<close> ends with exit code
  0. The recording path is truthy because \<open>path.join\<close> never returns the empty string;
  that property of the library is the hypothesis \<open>nonempty\<close>.
\<close>

theorem session_transcription_failure:
  assumes cfg: "cfg_recording cfg = Some rc" "rec_outputDir rc = Some outputDir" "cfg_ai cfg = Some ai"
    and ses: "runRecordingSession w st cfg = Some (st', evs)"
    and reached: "StageTranscribe \<in> set (invoked evs)"
    and throws: "transcribeVideo w (Some (recordingFileOf w outputDir)) (transcriptsDirOf w outputDir)
                   (ai_transcriptionModel ai) = Some (Inl e, tevs)"
    and nonempty: "recordingFileOf w outputDir \<noteq> []"
  shows "StageSummary \<notin> set (invoked evs)
     \<and> reported evs = [ReportRecording (recordingFileOf w outputDir)]
     \<and> (\<exists>pre. evs = pre @ [Console (MsgTranscriptionFailed (errMessage e)),
                             Console (ReportRecording (recordingFileOf w outputDir))])
     \<and> (fst (loadConfig w) = Inr cfg \<and> (w_argvNow w \<or> \<not> scheduled cfg) \<longrightarrow>
          (\<exists>cevs. main w st = Some (st', cevs @ evs @ [ProcessExit 0])))"
proof -
  from session_reaches_transcription [OF cfg(1,2) ses reached]
  obtain st1 pre fevs where
    st1: "recordingPath st1 = Some (recordingFileOf w outputDir)" "ffmpegProcess st1 \<noteq> None"
    and f: "finishSession w st1 cfg (transcriptsDirOf w outputDir) = Some (None, st', fevs)"
    and e: "evs = pre @ fevs" and i: "invoked pre = [StageJoin, StageStartRecording]" "reported pre = []"
    by blast
  from finishSession_throws [OF cfg(3) st1 nonempty throws f]
  obtain mid where
    a: "StageSummary \<notin> set (invoked fevs)"
    and b: "reported fevs = [ReportRecording (recordingFileOf w outputDir)]"
    and c: "fevs = mid @ [Console (MsgTranscriptionFailed (errMessage e)),
                         Console (ReportRecording (recordingFileOf w outputDir))]"
    by blast
  have 1: "StageSummary \<notin> set (invoked evs)" using e i a by (simp add: invoked_append)
  have 2: "reported evs = [ReportRecording (recordingFileOf w outputDir)]"
    using e i b by (simp add: reported_append)
  have 3: "\<exists>pre. evs = pre @ [Console (MsgTranscriptionFailed (errMessage e)),
                             Console (ReportRecording (recordingFileOf w outputDir))]"
    using e c by (intro exI [of _ "pre @ mid"]) simp
  have 4: "fst (loadConfig w) = Inr cfg \<and> (w_argvNow w \<or> \<not> scheduled cfg) \<longrightarrow>
          (\<exists>cevs. main w st = Some (st', cevs @ evs @ [ProcessExit 0]))"
  proof
    assume h: "fst (loadConfig w) = Inr cfg \<and> (w_argvNow w \<or> \<not> scheduled cfg)"
    obtain cevs where l: "loadConfig w = (Inr cfg, cevs)" using h by (cases "loadConfig w") simp
    have "main w st = Some (st', cevs @ evs @ [ProcessExit 0])"
      using h l ses by (auto simp: main_def Let_def scheduled_def split: option.splits)
    then show "\<exists>cevs. main w st = Some (st', cevs @ evs @ [ProcessExit 0])" by blast
  qed
  from 1 2 3 4 show ?thesis by blast
qed

lemma noKeyWorld_session:
  "\<exists>st' evs. runRecordingSession noKeyWorld recorderInit (applyDefaults readyConfig) = Some (st', evs)
       \<and> StageTranscribe \<in> set (invoked evs)"
  by (simp add: runRecordingSession_def noKeyWorld_def calmWorld_def applyDefaults_def readyConfig_def
        orElse_def Let_def transcriptsDirOf_def joinZoomMeeting_def deepLink_def extractMeetingId_def
        idAt_def isDigit_def extractPassword_def pwdAt_def questionMark_def ampersand_def zoomUrl_def confnoPrefix_def
        uriUnreserved_def isLeadSurrogate_def isTrailSurrogate_def escapeCodePoint_def utf8_def percent_def hexDigit_def
        runAutomation_def startScreenRecording_def recordingFileOf_def selectSettings_def getQuality_def
        qualitySettings_def recorderInit_def spawnErrorLog_def finishSession_def monitorMeeting_def
        trim_def isWhiteSpace_def stopScreenRecording_def fsStat_def quitZoom_def verifyRecording_def
        uploadToCloud_def fsAccess_def postProcess_def transcribeVideo_def truthy_def finalReport_def
        invoked_append js_def)


theorem session_transcription_failure_witness:
  "\<exists>st' evs pre. runRecordingSession noKeyWorld recorderInit (applyDefaults readyConfig) = Some (st', evs)
     \<and> StageSummary \<notin> set (invoked evs)
     \<and> reported evs = [ReportRecording (recordingFileOf noKeyWorld (js ''/rec''))]
     \<and> evs = pre @ [Console (MsgTranscriptionFailed (js ''GEMINI_API_KEY not found in environment variables'')),
                      Console (ReportRecording (recordingFileOf noKeyWorld (js ''/rec'')))]
     \<and> (\<exists>cevs. main noKeyWorld recorderInit = Some (st', cevs @ evs @ [ProcessExit 0]))"
proof -
  let ?rc = "\<lparr> rec_outputDir = Some (js ''/rec''), rec_quality = Some (js ''medium'') \<rparr>"
  let ?ai = "\<lparr> ai_transcriptionModel = Some (js ''gemini-1.5-flash''), ai_summaryModel = Some (js ''gemini-1.5-flash'') \<rparr>"
  let ?e = "Error (js ''GEMINI_API_KEY not found in environment variables'')"
  from noKeyWorld_session obtain st' evs where
    ses: "runRecordingSession noKeyWorld recorderInit (applyDefaults readyConfig) = Some (st', evs)"
    and reached: "StageTranscribe \<in> set (invoked evs)" by blast
  have c1: "cfg_recording (applyDefaults readyConfig) = Some ?rc"
    by (simp add: applyDefaults_def readyConfig_def orElse_def js_def)
  have c2: "rec_outputDir ?rc = Some (js ''/rec'')" by simp
  have c3: "cfg_ai (applyDefaults readyConfig) = Some ?ai"
    by (simp add: applyDefaults_def readyConfig_def orElse_def js_def)
  have throws: "transcribeVideo noKeyWorld (Some (recordingFileOf noKeyWorld (js ''/rec'')))
                  (transcriptsDirOf noKeyWorld (js ''/rec'')) (ai_transcriptionModel ?ai)
                = Some (Inl ?e, [Console (MsgTranscriptionError (errMessage ?e))])"
    by (simp add: transcribeVideo_def noKeyWorld_def truthy_def)
  have nonempty: "recordingFileOf noKeyWorld (js ''/rec'') \<noteq> []"
    by (simp add: recordingFileOf_def noKeyWorld_def calmWorld_def js_def)
  have l: "fst (loadConfig noKeyWorld) = Inr (applyDefaults readyConfig)"
    by (simp add: loadConfig_def noKeyWorld_def validateConfig_def readyConfig_def truthy_def
                  knownProviders_def js_def)
  have n: "w_argvNow noKeyWorld \<or> \<not> scheduled (applyDefaults readyConfig)"
    by (simp add: scheduled_def applyDefaults_def readyConfig_def)
  from session_transcription_failure [OF c1 c2 c3 ses reached throws nonempty] l n ses
  show ?thesis by auto
qed


section \<open>Properties of the meeting joiner\<close>

lemma stripPrefix_Some: "stripPrefix p s = Some r \<longleftrightarrow> s = p @ r"
  by (induction p s rule: stripPrefix.induct) auto

lemma stripPrefix_append: "stripPrefix p (p @ r) = Some r"
  by (simp add: stripPrefix_Some)

lemma search_SomeD:
  "search m s = Some r \<Longrightarrow>
     \<exists>pre suf. s = pre @ suf \<and> m suf = Some r \<and> (\<forall>a b. s = a @ b \<and> length a < length pre \<longrightarrow> m b = None)"
proof (induction s)
  case Nil
  then show ?case by simp
next
  case (Cons c cs)
  show ?case
  proof (cases "m (c # cs)")
    case (Some x)
    with Cons.prems have "m (c # cs) = Some r" by simp
    then show ?thesis by (intro exI [of _ "[]"] exI [of _ "c # cs"]) simp
  next
    case None
    with Cons.prems have "search m cs = Some r" by simp
    from Cons.IH [OF this] obtain pre suf where
      p: "cs = pre @ suf" "m suf = Some r" "\<forall>a b. cs = a @ b \<and> length a < length pre \<longrightarrow> m b = None"
      by blast
    have "\<forall>a b. c # cs = a @ b \<and> length a < length (c # pre) \<longrightarrow> m b = None"
    proof (intro allI impI)
      fix a b assume h: "c # cs = a @ b \<and> length a < length (c # pre)"
      show "m b = None"
      proof (cases a)
        case Nil
        with h None show ?thesis by simp
      next
        case (Cons a0 as)
        with h have "cs = as @ b" "length as < length pre" by simp_all
        with p(3) show ?thesis by blast
      qed
    qed
    with p(1,2) show ?thesis by (intro exI [of _ "c # pre"] exI [of _ suf]) simp
  qed
qed

lemma search_NoneD: "search m s = None \<Longrightarrow> s = a @ b \<Longrightarrow> m b = None"
proof (induction s arbitrary: a)
  case Nil
  then show ?case by simp
next
  case (Cons c cs)
  show ?case
  proof (cases a)
    case Nil
    with Cons.prems show ?thesis by (auto split: option.splits)
  next
    case (Cons a0 as)
    with Cons.prems have "search m cs = None" "cs = as @ b" by (auto split: option.splits)
    then show ?thesis by (rule Cons.IH)
  qed
qed

lemma search_NoneI: "(\<And>a b. s = a @ b \<Longrightarrow> m b = None) \<Longrightarrow> search m s = None"
proof (induction s)
  case Nil
  then show ?case by simp
next
  case (Cons c cs)
  have "m (c # cs) = None" using Cons.prems [of "[]" "c # cs"] by simp
  moreover have "search m cs = None"
  proof (rule Cons.IH)
    fix a b assume "cs = a @ b"
    then show "m b = None" using Cons.prems [of "c # a" b] by simp
  qed
  ultimately show ?case by simp
qed

lemma takeWhile_run:
  "takeWhile P s = ds \<longleftrightarrow> (\<exists>rest. s = ds @ rest \<and> (\<forall>d\<in>set ds. P d) \<and> (rest = [] \<or> \<not> P (hd rest)))"
proof
  assume "takeWhile P s = ds"
  then have "s = ds @ dropWhile P s" "\<forall>d\<in>set ds. P d" "dropWhile P s = [] \<or> \<not> P (hd (dropWhile P s))"
    using hd_dropWhile [of P s] by (auto dest: set_takeWhileD)
  then show "\<exists>rest. s = ds @ rest \<and> (\<forall>d\<in>set ds. P d) \<and> (rest = [] \<or> \<not> P (hd rest))" by blast
next
  assume "\<exists>rest. s = ds @ rest \<and> (\<forall>d\<in>set ds. P d) \<and> (rest = [] \<or> \<not> P (hd rest))"
  then obtain rest where "s = ds @ rest" "\<forall>d\<in>set ds. P d" "rest = [] \<or> \<not> P (hd rest)" by blast
  then show "takeWhile P s = ds" by (cases rest) (auto simp: takeWhile_append2)
qed

lemma idAt_Some:
  "idAt s = Some ds \<longleftrightarrow>
     (\<exists>rest. s = js ''/j/'' @ ds @ rest \<and> ds \<noteq> [] \<and> (\<forall>d\<in>set ds. isDigit d) \<and> (rest = [] \<or> \<not> isDigit (hd rest)))"
  by (auto simp: idAt_def Let_def stripPrefix_Some stripPrefix_append takeWhile_run split: option.splits)

lemma idAt_digit: "isDigit d \<Longrightarrow> idAt (js ''/j/'' @ d # rest) \<noteq> None"
  by (simp add: idAt_def Let_def stripPrefix_append)

lemma idAt_NoneD: "idAt s = None \<Longrightarrow> s = js ''/j/'' @ d # rest \<Longrightarrow> \<not> isDigit d"
  using idAt_digit by blast



lemma numberAt_SomeD:
  assumes "numberAt s = Some ds"
  shows "\<exists>rest. s = ds @ rest \<and> 9 \<le> length ds \<and> length ds \<le> 11 \<and> (\<forall>d\<in>set ds. isDigit d)
            \<and> (length ds < 11 \<longrightarrow> rest = [] \<or> \<not> isDigit (hd rest))"
proof -
  let ?tw = "takeWhile isDigit s" and ?dw = "dropWhile isDigit s"
  from assms have ds: "ds = take 11 ?tw" and len: "9 \<le> length ds"
    by (auto simp: numberAt_def Let_def split: if_splits)
  have s: "s = ds @ (drop 11 ?tw @ ?dw)"
    using ds by (metis append_assoc append_take_drop_id takeWhile_dropWhile_id)
  have dig: "\<forall>d\<in>set ds. isDigit d"
    using ds by (auto dest: in_set_takeD set_takeWhileD)
  have short: "length ds < 11 \<longrightarrow> drop 11 ?tw @ ?dw = [] \<or> \<not> isDigit (hd (drop 11 ?tw @ ?dw))"
  proof
    assume "length ds < 11"
    with ds have "drop 11 ?tw = []" by simp
    then show "drop 11 ?tw @ ?dw = [] \<or> \<not> isDigit (hd (drop 11 ?tw @ ?dw))"
      using hd_dropWhile [of isDigit s] by auto
  qed
  from s len ds dig short show ?thesis by (intro exI [of _ "drop 11 ?tw @ ?dw"]) simp
qed















lemma splitOn_single: "sep \<notin> set xs \<Longrightarrow> splitOn sep xs = [xs]"
  by (induction xs) auto

lemma splitOn_sep: "sep \<notin> set xs \<Longrightarrow> splitOn sep (xs @ sep # ys) = xs # splitOn sep ys"
  by (induction xs) auto

lemma pwdAt_Some:
  "pwdAt s = Some p \<longleftrightarrow>
     (\<exists>sep rest. s = sep # js ''pwd='' @ p @ rest \<and> (sep = questionMark \<or> sep = ampersand)
         \<and> p \<noteq> [] \<and> ampersand \<notin> set p \<and> (rest = [] \<or> hd rest = ampersand))"
proof
  assume a: "pwdAt s = Some p"
  then obtain sep r where s: "s = sep # r" by (cases s) (simp_all add: pwdAt_def)
  with a have sep: "sep = questionMark \<or> sep = ampersand"
    by (auto simp: pwdAt_def split: if_splits)
  with a s obtain v where v: "r = js ''pwd='' @ v"
    by (auto simp: pwdAt_def stripPrefix_Some split: option.splits)
  with a s sep have p: "takeWhile (\<lambda>x. x \<noteq> ampersand) v = p" "p \<noteq> []"
    by (auto simp: pwdAt_def Let_def stripPrefix_append split: if_splits)
  from p(1) obtain rest where "v = p @ rest" "\<forall>d\<in>set p. d \<noteq> ampersand" "rest = [] \<or> hd rest = ampersand"
    unfolding takeWhile_run by blast
  with s sep v p(2) show "\<exists>sep rest. s = sep # js ''pwd='' @ p @ rest \<and> (sep = questionMark \<or> sep = ampersand)
         \<and> p \<noteq> [] \<and> ampersand \<notin> set p \<and> (rest = [] \<or> hd rest = ampersand)"
    by blast
next
  assume "\<exists>sep rest. s = sep # js ''pwd='' @ p @ rest \<and> (sep = questionMark \<or> sep = ampersand)
         \<and> p \<noteq> [] \<and> ampersand \<notin> set p \<and> (rest = [] \<or> hd rest = ampersand)"
  then obtain sep rest where
    h: "s = sep # js ''pwd='' @ p @ rest" "sep = questionMark \<or> sep = ampersand"
       "p \<noteq> []" "ampersand \<notin> set p" "rest = [] \<or> hd rest = ampersand" by blast
  have "takeWhile (\<lambda>x. x \<noteq> ampersand) (p @ rest) = p"
    unfolding takeWhile_run using h(4,5) by blast
  with h(1,2,3) show "pwdAt s = Some p"
    by (auto simp: pwdAt_def Let_def stripPrefix_append)
qed

lemma pwdAt_value:
  "(sep = questionMark \<or> sep = ampersand) \<Longrightarrow> c \<noteq> ampersand \<Longrightarrow>
     pwdAt (sep # js ''pwd='' @ c # rest) \<noteq> None"
  by (auto simp: pwdAt_def Let_def stripPrefix_append)

lemma pwdAt_None_iff:
  "pwdAt s = None \<longleftrightarrow>
     \<not> (\<exists>sep c rest. s = sep # js ''pwd='' @ c # rest \<and> (sep = questionMark \<or> sep = ampersand) \<and> c \<noteq> ampersand)"
proof
  assume "pwdAt s = None"
  then show "\<not> (\<exists>sep c rest. s = sep # js ''pwd='' @ c # rest \<and> (sep = questionMark \<or> sep = ampersand) \<and> c \<noteq> ampersand)"
    using pwdAt_value by blast
next
  assume n: "\<not> (\<exists>sep c rest. s = sep # js ''pwd='' @ c # rest \<and> (sep = questionMark \<or> sep = ampersand) \<and> c \<noteq> ampersand)"
  show "pwdAt s = None"
  proof (rule ccontr)
    assume "pwdAt s \<noteq> None"
    then obtain p where "pwdAt s = Some p" by blast
    then obtain sep rest where
      r: "s = sep # js ''pwd='' @ p @ rest" "sep = questionMark \<or> sep = ampersand" "p \<noteq> []" "ampersand \<notin> set p"
      unfolding pwdAt_Some by blast
    then have "s = sep # js ''pwd='' @ hd p # (tl p @ rest) \<and> hd p \<noteq> ampersand" by (cases p) auto
    with r(2) n show False by blast
  qed
qed

lemma hexDigit_not_amp: "hexDigit n \<noteq> ampersand"
proof -
  have "n mod 16 < length (js ''0123456789ABCDEF'')" by (simp add: js_def)
  then have "hexDigit n \<in> set (js ''0123456789ABCDEF'')"
    unfolding hexDigit_def by (rule nth_mem)
  then show ?thesis by (auto simp: js_def ampersand_def)
qed

lemma escape_no_amp: "ampersand \<notin> set (escapeCodePoint cp)"
  using hexDigit_not_amp [symmetric]
  by (auto simp: escapeCodePoint_def percent_def ampersand_def)

lemma unreserved_not_amp: "uriUnreserved c \<Longrightarrow> c \<noteq> ampersand"
  by (auto simp: uriUnreserved_def js_def ampersand_def)

lemma encode_no_amp: "encodeURIComponent s = Inr r \<Longrightarrow> ampersand \<notin> set r"
proof (induction s arbitrary: r rule: encodeURIComponent.induct)
  case 1
  then show ?case by simp
next
  case (2 c)
  then show ?case
    by (auto simp: escape_no_amp dest: unreserved_not_amp split: if_splits)
next
  case (3 c d ds)
  then show ?case
    by (auto simp: escape_no_amp dest: unreserved_not_amp split: if_splits sum.splits)
qed

lemma digit_not_amp: "isDigit d \<Longrightarrow> d \<noteq> ampersand"
  by (auto simp: isDigit_def ampersand_def)

lemma extractMeetingId_digits:
  assumes "extractMeetingId link = Inr meetingId"
  shows "\<forall>d\<in>set meetingId. isDigit d"
proof (cases "search idAt link")
  case (Some ds)
  with assms have "ds = meetingId" by (simp add: extractMeetingId_def)
  with search_SomeD [OF Some] show ?thesis unfolding idAt_Some by blast
next
  case None
  with assms have "search numberAt link = Some meetingId"
    by (simp add: extractMeetingId_def split: option.splits)
  from search_SomeD [OF this] obtain suf where "numberAt suf = Some meetingId" by blast
  from numberAt_SomeD [OF this] show ?thesis by blast
qed


lemma amp_literals:
  "ampersand \<notin> set confnoPrefix" "ampersand \<notin> set (js ''pwd='')" "ampersand \<notin> set (js ''uname='')"
  "js ''&pwd='' = ampersand # js ''pwd=''" "js ''&uname='' = ampersand # js ''uname=''"
  by (simp_all add: confnoPrefix_def js_def ampersand_def)

lemma zoomUrl_with_password:
  assumes "password \<noteq> []" and "zoomUrl meetingId password name = Inr url"
    and "\<forall>d\<in>set meetingId. isDigit d"
  shows "\<exists>p n. encodeURIComponent password = Inr p \<and> encodeURIComponent name = Inr n
           \<and> url = confnoPrefix @ meetingId @ js ''&pwd='' @ p @ js ''&uname='' @ n
           \<and> splitOn ampersand url = [confnoPrefix @ meetingId, js ''pwd='' @ p, js ''uname='' @ n]"
proof -
  from assms(1,2) obtain p n where
    e: "encodeURIComponent password = Inr p" "encodeURIComponent name = Inr n"
    and u: "url = confnoPrefix @ meetingId @ js ''&pwd='' @ p @ js ''&uname='' @ n"
    by (auto simp: zoomUrl_def Let_def split: sum.splits)
  have a1: "ampersand \<notin> set (confnoPrefix @ meetingId)"
    using assms(3) amp_literals(1) digit_not_amp by auto
  have a2: "ampersand \<notin> set (js ''pwd='' @ p)"
    using encode_no_amp [OF e(1)] amp_literals(2) by simp
  have a3: "ampersand \<notin> set (js ''uname='' @ n)"
    using encode_no_amp [OF e(2)] amp_literals(3) by simp
  have "url = (confnoPrefix @ meetingId) @ ampersand # (js ''pwd='' @ p) @ ampersand # (js ''uname='' @ n)"
    using u by (simp add: amp_literals(4,5))
  then have "splitOn ampersand url = [confnoPrefix @ meetingId, js ''pwd='' @ p, js ''uname='' @ n]"
    by (simp only: splitOn_sep [OF a1] splitOn_sep [OF a2] splitOn_single [OF a3])
  with e u show ?thesis by blast
qed

lemma zoomUrl_without_password:
  assumes "zoomUrl meetingId [] name = Inr url" and "\<forall>d\<in>set meetingId. isDigit d"
  shows "\<exists>n. encodeURIComponent name = Inr n
           \<and> url = confnoPrefix @ meetingId @ js ''&uname='' @ n
           \<and> splitOn ampersand url = [confnoPrefix @ meetingId, js ''uname='' @ n]"
proof -
  from assms(1) obtain n where
    e: "encodeURIComponent name = Inr n"
    and u: "url = confnoPrefix @ meetingId @ js ''&uname='' @ n"
    by (auto simp: zoomUrl_def Let_def split: sum.splits)
  have a1: "ampersand \<notin> set (confnoPrefix @ meetingId)"
    using assms(2) amp_literals(1) digit_not_amp by auto
  have a3: "ampersand \<notin> set (js ''uname='' @ n)"
    using encode_no_amp [OF e] amp_literals(3) by simp
  have "url = (confnoPrefix @ meetingId) @ ampersand # (js ''uname='' @ n)"
    using u by (simp add: amp_literals(5))
  then have "splitOn ampersand url = [confnoPrefix @ meetingId, js ''uname='' @ n]"
    by (simp only: splitOn_sep [OF a1] splitOn_single [OF a3])
  with e u show ?thesis by blast
qed

lemma deepLink_parts:
  assumes "zoom_meetingLink z = Some link" and "deepLink z = Inr (meetingId, url)"
  shows "extractMeetingId link = Inr meetingId
       \<and> zoomUrl meetingId (extractPassword (zoom_password z) link)
            (orElse (zoom_displayName z) (js ''Zoom Recorder'')) = Inr url"
  using assms by (auto simp: deepLink_def split: sum.splits)

lemma join_opens_deepLink:
  assumes "cfg_zoom cfg = Some z" and "deepLink z = Inr (meetingId, url)"
  shows "\<exists>rest. snd (joinZoomMeeting w cfg) = Exec (OpenUrl url) # rest"
  using assms by (simp add: joinZoomMeeting_def split: sum.splits)

lemma deepLink_configured:
  assumes link: "zoom_meetingLink z = Some link" and ok: "deepLink z = Inr (meetingId, url)"
    and h0: "truthy (zoom_password z)"
  shows "\<exists>pw p n. zoom_password z = Some pw \<and> encodeURIComponent pw = Inr p
          \<and> encodeURIComponent (orElse (zoom_displayName z) (js ''Zoom Recorder'')) = Inr n
          \<and> url = confnoPrefix @ meetingId @ js ''&pwd='' @ p @ js ''&uname='' @ n
          \<and> splitOn ampersand url = [confnoPrefix @ meetingId, js ''pwd='' @ p, js ''uname='' @ n]"
proof -
  let ?name = "orElse (zoom_displayName z) (js ''Zoom Recorder'')"
  note parts = deepLink_parts [OF link ok]
  note digits = extractMeetingId_digits [OF parts [THEN conjunct1]]
  note zu = parts [THEN conjunct2]
  from h0 obtain pw where pw: "zoom_password z = Some pw" "pw \<noteq> []"
    by (auto simp: truthy_def split: option.splits)
  then have "extractPassword (zoom_password z) link = pw"
    by (simp add: extractPassword_def orElse_def Let_def)
  with zu have "zoomUrl meetingId pw ?name = Inr url" by simp
  from zoomUrl_with_password [OF pw(2) this digits] obtain pp n where
    c: "encodeURIComponent pw = Inr pp \<and> encodeURIComponent ?name = Inr n
        \<and> url = confnoPrefix @ meetingId @ js ''&pwd='' @ pp @ js ''&uname='' @ n
        \<and> splitOn ampersand url = [confnoPrefix @ meetingId, js ''pwd='' @ pp, js ''uname='' @ n]"
    by (elim exE)
  show "\<exists>pw p n. zoom_password z = Some pw \<and> encodeURIComponent pw = Inr p
        \<and> encodeURIComponent ?name = Inr n
        \<and> url = confnoPrefix @ meetingId @ js ''&pwd='' @ p @ js ''&uname='' @ n
        \<and> splitOn ampersand url = [confnoPrefix @ meetingId, js ''pwd='' @ p, js ''uname='' @ n]"
    by (rule exI [of _ pw], rule exI [of _ pp], rule exI [of _ n]) (rule conjI [OF pw(1) c])
qed

lemma deepLink_from_link:
  assumes link: "zoom_meetingLink z = Some link" and ok: "deepLink z = Inr (meetingId, url)"
    and h0: "\<not> truthy (zoom_password z)
       \<and> (\<exists>pre sep c rest. link = pre @ sep # js ''pwd='' @ c # rest
              \<and> (sep = questionMark \<or> sep = ampersand) \<and> c \<noteq> ampersand)"
  shows "\<exists>pre sep v rest p n. link = pre @ sep # js ''pwd='' @ v @ rest
          \<and> (sep = questionMark \<or> sep = ampersand) \<and> v \<noteq> [] \<and> ampersand \<notin> set v
          \<and> (rest = [] \<or> hd rest = ampersand)
          \<and> (\<forall>pre' sep' c' rest'. link = pre' @ sep' # js ''pwd='' @ c' # rest'
                 \<and> (sep' = questionMark \<or> sep' = ampersand) \<and> c' \<noteq> ampersand \<longrightarrow> length pre \<le> length pre')
          \<and> encodeURIComponent v = Inr p
          \<and> encodeURIComponent (orElse (zoom_displayName z) (js ''Zoom Recorder'')) = Inr n
          \<and> url = confnoPrefix @ meetingId @ js ''&pwd='' @ p @ js ''&uname='' @ n
          \<and> splitOn ampersand url = [confnoPrefix @ meetingId, js ''pwd='' @ p, js ''uname='' @ n]"
proof -
  let ?name = "orElse (zoom_displayName z) (js ''Zoom Recorder'')"
  note parts = deepLink_parts [OF link ok]
  note digits = extractMeetingId_digits [OF parts [THEN conjunct1]]
  note zu = parts [THEN conjunct2]
  note h = h0
  from h [THEN conjunct1] have e: "orElse (zoom_password z) [] = []"
    by (auto simp: truthy_def orElse_def split: option.splits)
  from h [THEN conjunct2] obtain pre0 sep0 c0 rest0 where
    l0: "link = pre0 @ sep0 # js ''pwd='' @ c0 # rest0" "sep0 = questionMark \<or> sep0 = ampersand" "c0 \<noteq> ampersand"
    by (elim exE conjE)
  have v0: "pwdAt (sep0 # js ''pwd='' @ c0 # rest0) \<noteq> None"
    by (rule pwdAt_value [OF l0(2,3)])
  have "search pwdAt link \<noteq> None"
  proof
    assume "search pwdAt link = None"
    from search_NoneD [OF this l0(1)] v0 show False by simp
  qed
  then obtain v where f: "search pwdAt link = Some v" by (cases "search pwdAt link") simp_all
  from search_SomeD [OF f] obtain pre suf where
    p: "link = pre @ suf" "pwdAt suf = Some v"
       "\<forall>a b. link = a @ b \<and> length a < length pre \<longrightarrow> pwdAt b = None" by blast
  from p(2) [unfolded pwdAt_Some] obtain sep rest where
    r: "suf = sep # js ''pwd='' @ v @ rest" "sep = questionMark \<or> sep = ampersand"
       "v \<noteq> []" "ampersand \<notin> set v" "rest = [] \<or> hd rest = ampersand"
    by (elim exE conjE)
  have left: "\<forall>pre' sep' c' rest'. link = pre' @ sep' # js ''pwd='' @ c' # rest'
               \<and> (sep' = questionMark \<or> sep' = ampersand) \<and> c' \<noteq> ampersand \<longrightarrow> length pre \<le> length pre'"
  proof (intro allI impI)
    fix pre' sep' c' rest'
    assume g: "link = pre' @ sep' # js ''pwd='' @ c' # rest'
               \<and> (sep' = questionMark \<or> sep' = ampersand) \<and> c' \<noteq> ampersand"
    show "length pre \<le> length pre'"
    proof (rule ccontr)
      assume "\<not> length pre \<le> length pre'"
      then have lt: "length pre' < length pre" by simp
      note g1 = g [THEN conjunct1] and g2 = g [THEN conjunct2, THEN conjunct1]
        and g3 = g [THEN conjunct2, THEN conjunct2]
      from p(3) [rule_format, OF conjI [OF g1 lt]] pwdAt_value [OF g2 g3]
      show False by simp
    qed
  qed
  have "extractPassword (zoom_password z) link = v"
    using e f by (simp add: extractPassword_def Let_def)
  with zu have "zoomUrl meetingId v ?name = Inr url" by simp
  from zoomUrl_with_password [OF r(3) this digits] obtain pp n where
    c: "encodeURIComponent v = Inr pp \<and> encodeURIComponent ?name = Inr n
        \<and> url = confnoPrefix @ meetingId @ js ''&pwd='' @ pp @ js ''&uname='' @ n
        \<and> splitOn ampersand url = [confnoPrefix @ meetingId, js ''pwd='' @ pp, js ''uname='' @ n]"
    by (elim exE)
  have l: "link = pre @ sep # js ''pwd='' @ v @ rest" using p(1) r(1) by simp
  show "\<exists>pre sep v rest p n. link = pre @ sep # js ''pwd='' @ v @ rest
        \<and> (sep = questionMark \<or> sep = ampersand) \<and> v \<noteq> [] \<and> ampersand \<notin> set v
        \<and> (rest = [] \<or> hd rest = ampersand)
        \<and> (\<forall>pre' sep' c' rest'. link = pre' @ sep' # js ''pwd='' @ c' # rest'
               \<and> (sep' = questionMark \<or> sep' = ampersand) \<and> c' \<noteq> ampersand \<longrightarrow> length pre \<le> length pre')
        \<and> encodeURIComponent v = Inr p
        \<and> encodeURIComponent ?name = Inr n
        \<and> url = confnoPrefix @ meetingId @ js ''&pwd='' @ p @ js ''&uname='' @ n
        \<and> splitOn ampersand url = [confnoPrefix @ meetingId, js ''pwd='' @ p, js ''uname='' @ n]"
    by (rule exI [of _ pre], rule exI [of _ sep], rule exI [of _ v], rule exI [of _ rest],
        rule exI [of _ pp], rule exI [of _ n])
       (intro conjI l r(2) r(3) r(4) r(5) left c [THEN conjunct1] c [THEN conjunct2, THEN conjunct1]
              c [THEN conjunct2, THEN conjunct2, THEN conjunct1]
              c [THEN conjunct2, THEN conjunct2, THEN conjunct2])
qed

lemma deepLink_absent:
  assumes link: "zoom_meetingLink z = Some link" and ok: "deepLink z = Inr (meetingId, url)"
    and h0: "\<not> truthy (zoom_password z)
       \<and> \<not> (\<exists>pre sep c rest. link = pre @ sep # js ''pwd='' @ c # rest
              \<and> (sep = questionMark \<or> sep = ampersand) \<and> c \<noteq> ampersand)"
  shows "\<exists>n. encodeURIComponent (orElse (zoom_displayName z) (js ''Zoom Recorder'')) = Inr n
          \<and> url = confnoPrefix @ meetingId @ js ''&uname='' @ n
          \<and> splitOn ampersand url = [confnoPrefix @ meetingId, js ''uname='' @ n]"
proof -
  let ?name = "orElse (zoom_displayName z) (js ''Zoom Recorder'')"
  note parts = deepLink_parts [OF link ok]
  note digits = extractMeetingId_digits [OF parts [THEN conjunct1]]
  note zu = parts [THEN conjunct2]
  note h = h0
  from h [THEN conjunct1] have e: "orElse (zoom_password z) [] = []"
    by (auto simp: truthy_def orElse_def split: option.splits)
  have f: "search pwdAt link = None"
  proof (rule search_NoneI)
    fix a b assume "link = a @ b"
    with h [THEN conjunct2] show "pwdAt b = None" unfolding pwdAt_None_iff by blast
  qed
  have "extractPassword (zoom_password z) link = []"
    using e f by (simp add: extractPassword_def Let_def)
  with zu have "zoomUrl meetingId [] ?name = Inr url" by simp
  from zoomUrl_without_password [OF this digits]
  show "\<exists>n. encodeURIComponent ?name = Inr n
        \<and> url = confnoPrefix @ meetingId @ js ''&uname='' @ n
        \<and> splitOn ampersand url = [confnoPrefix @ meetingId, js ''uname='' @ n]" .
qed

text \<open>
  C3. Whenever joinZoomMeeting constructs a deep link (\<open>deepLink\<close> succeeds; it is the
  URI joinZoomMeeting opens): if the \<open>password\<close> field of the configuration is set (a
  non-empty string), the URI is the \<open>confno\<close> part, then \<open>&pwd=\<close> with the
  percent-encoded field, then \<open>&uname=\<close> with the percent-encoded display name; if it
  is unset (absent or empty, as the README prescribes for extraction from the link) and
  the link has a \<open>pwd=\<close> parameter after \<open>?\<close> or \<open>&\<close> with a non-empty value, the
  value of the leftmost such parameter, up to the next \<open>&\<close>, is encoded and used in the
  same place; if it is unset and the link has no such parameter, the URI is the
  \<open>confno\<close> part followed by \<open>&uname=\<close> alone. In each case the parts of the URI
  between \<open>&\<close> are exactly the ones named, so no other \<open>pwd\<close> parameter occurs.
\<close>

theorem deepLink_password:
  assumes link: "zoom_meetingLink z = Some link" and ok: "deepLink z = Inr (meetingId, url)"
  shows
   "(truthy (zoom_password z) \<longrightarrow>
       (\<exists>pw p n. zoom_password z = Some pw \<and> encodeURIComponent pw = Inr p
          \<and> encodeURIComponent (orElse (zoom_displayName z) (js ''Zoom Recorder'')) = Inr n
          \<and> url = confnoPrefix @ meetingId @ js ''&pwd='' @ p @ js ''&uname='' @ n
          \<and> splitOn ampersand url = [confnoPrefix @ meetingId, js ''pwd='' @ p, js ''uname='' @ n]))
  \<and> (\<not> truthy (zoom_password z)
       \<and> (\<exists>pre sep c rest. link = pre @ sep # js ''pwd='' @ c # rest
              \<and> (sep = questionMark \<or> sep = ampersand) \<and> c \<noteq> ampersand) \<longrightarrow>
       (\<exists>pre sep v rest p n. link = pre @ sep # js ''pwd='' @ v @ rest
          \<and> (sep = questionMark \<or> sep = ampersand) \<and> v \<noteq> [] \<and> ampersand \<notin> set v
          \<and> (rest = [] \<or> hd rest = ampersand)
          \<and> (\<forall>pre' sep' c' rest'. link = pre' @ sep' # js ''pwd='' @ c' # rest'
                 \<and> (sep' = questionMark \<or> sep' = ampersand) \<and> c' \<noteq> ampersand \<longrightarrow> length pre \<le> length pre')
          \<and> encodeURIComponent v = Inr p
          \<and> encodeURIComponent (orElse (zoom_displayName z) (js ''Zoom Recorder'')) = Inr n
          \<and> url = confnoPrefix @ meetingId @ js ''&pwd='' @ p @ js ''&uname='' @ n
          \<and> splitOn ampersand url = [confnoPrefix @ meetingId, js ''pwd='' @ p, js ''uname='' @ n]))
  \<and> (\<not> truthy (zoom_password z)
       \<and> \<not> (\<exists>pre sep c rest. link = pre @ sep # js ''pwd='' @ c # rest
              \<and> (sep = questionMark \<or> sep = ampersand) \<and> c \<noteq> ampersand) \<longrightarrow>
       (\<exists>n. encodeURIComponent (orElse (zoom_displayName z) (js ''Zoom Recorder'')) = Inr n
          \<and> url = confnoPrefix @ meetingId @ js ''&uname='' @ n
          \<and> splitOn ampersand url = [confnoPrefix @ meetingId, js ''uname='' @ n]))
  \<and> (\<forall>w cfg. cfg_zoom cfg = Some z \<longrightarrow> (\<exists>rest. snd (joinZoomMeeting w cfg) = Exec (OpenUrl url) # rest))"
proof (intro conjI impI allI)
  assume "truthy (zoom_password z)"
  then show "\<exists>pw p n. zoom_password z = Some pw \<and> encodeURIComponent pw = Inr p
          \<and> encodeURIComponent (orElse (zoom_displayName z) (js ''Zoom Recorder'')) = Inr n
          \<and> url = confnoPrefix @ meetingId @ js ''&pwd='' @ p @ js ''&uname='' @ n
          \<and> splitOn ampersand url = [confnoPrefix @ meetingId, js ''pwd='' @ p, js ''uname='' @ n]"
    by (rule deepLink_configured [OF link ok])
next
  assume "\<not> truthy (zoom_password z)
       \<and> (\<exists>pre sep c rest. link = pre @ sep # js ''pwd='' @ c # rest
              \<and> (sep = questionMark \<or> sep = ampersand) \<and> c \<noteq> ampersand)"
  then show "\<exists>pre sep v rest p n. link = pre @ sep # js ''pwd='' @ v @ rest
          \<and> (sep = questionMark \<or> sep = ampersand) \<and> v \<noteq> [] \<and> ampersand \<notin> set v
          \<and> (rest = [] \<or> hd rest = ampersand)
          \<and> (\<forall>pre' sep' c' rest'. link = pre' @ sep' # js ''pwd='' @ c' # rest'
                 \<and> (sep' = questionMark \<or> sep' = ampersand) \<and> c' \<noteq> ampersand \<longrightarrow> length pre \<le> length pre')
          \<and> encodeURIComponent v = Inr p
          \<and> encodeURIComponent (orElse (zoom_displayName z) (js ''Zoom Recorder'')) = Inr n
          \<and> url = confnoPrefix @ meetingId @ js ''&pwd='' @ p @ js ''&uname='' @ n
          \<and> splitOn ampersand url = [confnoPrefix @ meetingId, js ''pwd='' @ p, js ''uname='' @ n]"
    by (rule deepLink_from_link [OF link ok])
next
  assume "\<not> truthy (zoom_password z)
       \<and> \<not> (\<exists>pre sep c rest. link = pre @ sep # js ''pwd='' @ c # rest
              \<and> (sep = questionMark \<or> sep = ampersand) \<and> c \<noteq> ampersand)"
  then show "\<exists>n. encodeURIComponent (orElse (zoom_displayName z) (js ''Zoom Recorder'')) = Inr n
          \<and> url = confnoPrefix @ meetingId @ js ''&uname='' @ n
          \<and> splitOn ampersand url = [confnoPrefix @ meetingId, js ''uname='' @ n]"
    by (rule deepLink_absent [OF link ok])
next
  fix w and cfg :: config
  assume "cfg_zoom cfg = Some z"
  then show "\<exists>rest. snd (joinZoomMeeting w cfg) = Exec (OpenUrl url) # rest"
    by (rule join_opens_deepLink [OF _ ok])
qed

lemmas deepLink_eval =
  deepLink_def extractMeetingId_def idAt_def numberAt_def isDigit_def extractPassword_def pwdAt_def
  questionMark_def ampersand_def orElse_def zoomUrl_def confnoPrefix_def uriUnreserved_def
  isLeadSurrogate_def isTrailSurrogate_def escapeCodePoint_def utf8_def percent_def hexDigit_def
  Let_def js_def

lemma secret_link:
  "deepLink secretZoom
     = Inr (js ''123456789'', js ''zoommtg://zoom.us/join?confno=123456789&pwd=s3cret%26x&uname=Your%20Name'')"
  by (simp add: secretZoom_def deepLink_eval)

lemma linkPwd_link:
  "deepLink linkPwdZoom
     = Inr (js ''123456789'', js ''zoommtg://zoom.us/join?confno=123456789&pwd=abc&uname=Your%20Name'')"
  by (simp add: linkPwdZoom_def deepLink_eval)

lemma public_link:
  "deepLink publicZoom
     = Inr (js ''123456789'', js ''zoommtg://zoom.us/join?confno=123456789&uname=Zoom%20Recorder'')"
  by (simp add: publicZoom_def deepLink_eval)

lemma search_pwdAt_NoneD:
  "search pwdAt link = None \<Longrightarrow>
     \<not> (\<exists>pre sep c rest. link = pre @ sep # js ''pwd='' @ c # rest
            \<and> (sep = questionMark \<or> sep = ampersand) \<and> c \<noteq> ampersand)"
  using search_NoneD [of pwdAt link] pwdAt_value by blast

theorem deepLink_password_witness:
  "deepLink secretZoom
     = Inr (js ''123456789'', js ''zoommtg://zoom.us/join?confno=123456789&pwd=s3cret%26x&uname=Your%20Name'')
   \<and> (\<exists>p n. encodeURIComponent (js ''s3cret&x'') = Inr p
          \<and> splitOn ampersand (js ''zoommtg://zoom.us/join?confno=123456789&pwd=s3cret%26x&uname=Your%20Name'')
              = [confnoPrefix @ js ''123456789'', js ''pwd='' @ p, js ''uname='' @ n])
   \<and> deepLink linkPwdZoom
     = Inr (js ''123456789'', js ''zoommtg://zoom.us/join?confno=123456789&pwd=abc&uname=Your%20Name'')
   \<and> (\<exists>p n. splitOn ampersand (js ''zoommtg://zoom.us/join?confno=123456789&pwd=abc&uname=Your%20Name'')
              = [confnoPrefix @ js ''123456789'', js ''pwd='' @ p, js ''uname='' @ n])
   \<and> deepLink publicZoom
     = Inr (js ''123456789'', js ''zoommtg://zoom.us/join?confno=123456789&uname=Zoom%20Recorder'')
   \<and> (\<exists>n. splitOn ampersand (js ''zoommtg://zoom.us/join?confno=123456789&uname=Zoom%20Recorder'')
              = [confnoPrefix @ js ''123456789'', js ''uname='' @ n])"
proof -
  let ?l = "js ''https://zoom.us/j/123456789?pwd=abc''"
  have l1: "zoom_meetingLink secretZoom = Some ?l" by (simp add: secretZoom_def)
  have l2: "zoom_meetingLink linkPwdZoom = Some ?l" by (simp add: linkPwdZoom_def)
  have l3: "zoom_meetingLink publicZoom = Some (js ''https://zoom.us/j/123456789'')"
    by (simp add: publicZoom_def)
  have t1: "truthy (zoom_password secretZoom)" by (simp add: secretZoom_def truthy_def js_def)
  have p1: "zoom_password secretZoom = Some (js ''s3cret&x'')" by (simp add: secretZoom_def)
  have t2: "\<not> truthy (zoom_password linkPwdZoom)" by (simp add: linkPwdZoom_def truthy_def)
  have t3: "\<not> truthy (zoom_password publicZoom)" by (simp add: publicZoom_def truthy_def)
  have h2: "\<exists>pre sep c rest. ?l = pre @ sep # js ''pwd='' @ c # rest
              \<and> (sep = questionMark \<or> sep = ampersand) \<and> c \<noteq> ampersand"
    by (rule exI [of _ "js ''https://zoom.us/j/123456789''"], rule exI [of _ questionMark],
        rule exI [of _ "0x61"], rule exI [of _ "js ''bc''"])
       (simp add: js_def questionMark_def ampersand_def)
  have n3: "\<not> (\<exists>pre sep c rest. js ''https://zoom.us/j/123456789'' = pre @ sep # js ''pwd='' @ c # rest
              \<and> (sep = questionMark \<or> sep = ampersand) \<and> c \<noteq> ampersand)"
    by (rule search_pwdAt_NoneD) (simp add: pwdAt_def questionMark_def ampersand_def js_def)
  note a = deepLink_password [OF l1 secret_link, THEN conjunct1, rule_format, OF t1]
  note b = deepLink_password [OF l2 linkPwd_link, THEN conjunct2, THEN conjunct1, rule_format,
             OF conjI [OF t2 h2]]
  note c = deepLink_password [OF l3 public_link, THEN conjunct2, THEN conjunct2, THEN conjunct1,
             rule_format, OF conjI [OF t3 n3]]
  from a p1 have 1: "\<exists>p n. encodeURIComponent (js ''s3cret&x'') = Inr p
          \<and> splitOn ampersand (js ''zoommtg://zoom.us/join?confno=123456789&pwd=s3cret%26x&uname=Your%20Name'')
              = [confnoPrefix @ js ''123456789'', js ''pwd='' @ p, js ''uname='' @ n]"
    by auto
  from b have 2: "\<exists>p n. splitOn ampersand (js ''zoommtg://zoom.us/join?confno=123456789&pwd=abc&uname=Your%20Name'')
              = [confnoPrefix @ js ''123456789'', js ''pwd='' @ p, js ''uname='' @ n]"
    by (elim exE conjE) (rule exI, rule exI, assumption)
  from c have 3: "\<exists>n. splitOn ampersand (js ''zoommtg://zoom.us/join?confno=123456789&uname=Zoom%20Recorder'')
              = [confnoPrefix @ js ''123456789'', js ''uname='' @ n]"
    by (elim exE conjE) (rule exI, assumption)
  from secret_link 1 linkPwd_link 2 public_link 3 show ?thesis by (intro conjI)
qed


end
